theory Spec2Isabelle
  imports Complex_Main
begin

section \<open>Floating-point values\<close>

text \<open>
  The arrays of the program hold IEEE double values. A finite value is modelled by the
  real number it stands for (rounding is outside the model, and so is the sign of zero);
  the three special values are kept, because numpy's elementwise division does not raise
  on a zero divisor: it yields an infinity or NaN, which then flows through the rest of
  the computation. \<^verbatim>\<open>np.expm1\<close> overflows to infinity where the exact value is above the
  largest finite double, \<open>2\<^sup>1\<^sup>0\<^sup>2\<^sup>4 - 2\<^sup>9\<^sup>7\<^sup>1\<close> (for an argument above about 709.78).
\<close>

datatype npfloat = Fin real | PInf | NInf | NaN

fun is_fin :: "npfloat \<Rightarrow> bool" where
  "is_fin (Fin x) = True"
| "is_fin _ = False"

instantiation npfloat :: "{zero, one, plus, minus, uminus, times, inverse}"
begin

definition zero_npfloat :: npfloat where
  "zero_npfloat = Fin 0"

definition one_npfloat :: npfloat where
  "one_npfloat = Fin 1"

fun uminus_npfloat :: "npfloat \<Rightarrow> npfloat" where
  "uminus_npfloat (Fin x) = Fin (- x)"
| "uminus_npfloat PInf = NInf"
| "uminus_npfloat NInf = PInf"
| "uminus_npfloat NaN = NaN"

fun plus_npfloat :: "npfloat \<Rightarrow> npfloat \<Rightarrow> npfloat" where
  "plus_npfloat (Fin x) (Fin y) = Fin (x + y)"
| "plus_npfloat NaN b = NaN"
| "plus_npfloat a NaN = NaN"
| "plus_npfloat PInf NInf = NaN"
| "plus_npfloat NInf PInf = NaN"
| "plus_npfloat PInf b = PInf"
| "plus_npfloat NInf b = NInf"
| "plus_npfloat a PInf = PInf"
| "plus_npfloat a NInf = NInf"

definition minus_npfloat :: "npfloat \<Rightarrow> npfloat \<Rightarrow> npfloat" where
  "minus_npfloat (a::npfloat) b = a + (- b)"

fun times_npfloat :: "npfloat \<Rightarrow> npfloat \<Rightarrow> npfloat" where
  "times_npfloat (Fin x) (Fin y) = Fin (x * y)"
| "times_npfloat NaN b = NaN"
| "times_npfloat a NaN = NaN"
| "times_npfloat (Fin x) PInf = (if x = 0 then NaN else if 0 < x then PInf else NInf)"
| "times_npfloat (Fin x) NInf = (if x = 0 then NaN else if 0 < x then NInf else PInf)"
| "times_npfloat PInf (Fin y) = (if y = 0 then NaN else if 0 < y then PInf else NInf)"
| "times_npfloat NInf (Fin y) = (if y = 0 then NaN else if 0 < y then NInf else PInf)"
| "times_npfloat PInf PInf = PInf"
| "times_npfloat NInf NInf = PInf"
| "times_npfloat PInf NInf = NInf"
| "times_npfloat NInf PInf = NInf"

text \<open>Elementwise true division: a zero divisor gives an infinity, or NaN for 0/0.\<close>

fun divide_npfloat :: "npfloat \<Rightarrow> npfloat \<Rightarrow> npfloat" where
  "divide_npfloat (Fin x) (Fin y) =
     (if y = 0 then (if x = 0 then NaN else if 0 < x then PInf else NInf)
      else Fin (x / y))"
| "divide_npfloat NaN b = NaN"
| "divide_npfloat a NaN = NaN"
| "divide_npfloat (Fin x) PInf = Fin 0"
| "divide_npfloat (Fin x) NInf = Fin 0"
| "divide_npfloat PInf (Fin y) = (if 0 \<le> y then PInf else NInf)"
| "divide_npfloat NInf (Fin y) = (if 0 \<le> y then NInf else PInf)"
| "divide_npfloat a b = NaN"

fun inverse_npfloat :: "npfloat \<Rightarrow> npfloat" where
  "inverse_npfloat (Fin x) = (if x = 0 then PInf else Fin (1 / x))"
| "inverse_npfloat PInf = Fin 0"
| "inverse_npfloat NInf = Fin 0"
| "inverse_npfloat NaN = NaN"

instance ..

end

text \<open>\<^verbatim>\<open>np.log\<close>, \<^verbatim>\<open>np.exp\<close> and the square \<^verbatim>\<open>x ** 2\<close>.\<close>

fun np_log :: "npfloat \<Rightarrow> npfloat" where
  "np_log (Fin x) = (if 0 < x then Fin (ln x) else if x = 0 then NInf else NaN)"
| "np_log PInf = PInf"
| "np_log NInf = NaN"
| "np_log NaN = NaN"

fun np_exp :: "npfloat \<Rightarrow> npfloat" where
  "np_exp (Fin x) = Fin (exp x)"
| "np_exp PInf = PInf"
| "np_exp NInf = Fin 0"
| "np_exp NaN = NaN"

fun np_square :: "npfloat \<Rightarrow> npfloat" where
  "np_square (Fin x) = Fin (x ^ 2)"
| "np_square PInf = PInf"
| "np_square NInf = PInf"
| "np_square NaN = NaN"

text \<open>
  Comparison of two floats: every comparison with NaN is false, as in IEEE 754.
\<close>

fun fl_less :: "npfloat \<Rightarrow> npfloat \<Rightarrow> bool" where
  "fl_less (Fin x) (Fin y) = (x < y)"
| "fl_less NaN b = False"
| "fl_less a NaN = False"
| "fl_less a NInf = False"
| "fl_less PInf b = False"
| "fl_less NInf b = True"
| "fl_less a PInf = True"

fun fl_eq :: "npfloat \<Rightarrow> npfloat \<Rightarrow> bool" where
  "fl_eq NaN b = False"
| "fl_eq a NaN = False"
| "fl_eq a b = (a = b)"

definition fl_le :: "npfloat \<Rightarrow> npfloat \<Rightarrow> bool" where
  "fl_le a b = (fl_less a b \<or> fl_eq a b)"

text \<open>\<^verbatim>\<open>np.maximum\<close> and \<^verbatim>\<open>np.max\<close> propagate NaN.\<close>

fun np_maximum :: "npfloat \<Rightarrow> npfloat \<Rightarrow> npfloat" where
  "np_maximum NaN b = NaN"
| "np_maximum a NaN = NaN"
| "np_maximum a b = (if fl_less a b then b else a)"

fun np_minimum :: "npfloat \<Rightarrow> npfloat \<Rightarrow> npfloat" where
  "np_minimum NaN b = NaN"
| "np_minimum a NaN = NaN"
| "np_minimum a b = (if fl_less b a then b else a)"

fun np_sqrt :: "npfloat \<Rightarrow> npfloat" where
  "np_sqrt (Fin x) = (if 0 \<le> x then Fin (sqrt x) else NaN)"
| "np_sqrt PInf = PInf"
| "np_sqrt NInf = NaN"
| "np_sqrt NaN = NaN"

definition max_double :: real where
  "max_double = 2 ^ 1024 - 2 ^ 971"

fun np_expm1 :: "npfloat \<Rightarrow> npfloat" where
  "np_expm1 (Fin x) = (if max_double < exp x - 1 then PInf else Fin (exp x - 1))"
| "np_expm1 PInf = PInf"
| "np_expm1 NInf = Fin (- 1)"
| "np_expm1 NaN = NaN"

fun np_cube :: "npfloat \<Rightarrow> npfloat" where
  "np_cube (Fin x) = Fin (x ^ 3)"
| "np_cube a = a"

fun np_cos :: "npfloat \<Rightarrow> npfloat" where
  "np_cos (Fin x) = Fin (cos x)"
| "np_cos a = NaN"

fun np_sin :: "npfloat \<Rightarrow> npfloat" where
  "np_sin (Fin x) = Fin (sin x)"
| "np_sin a = NaN"

text \<open>
  \<^verbatim>\<open>np.arctan2(y, x)\<close> for finite arguments: the angle in \<open>(- pi, pi]\<close> of the point
  \<open>(x, y)\<close>, and 0 at the origin. An infinite argument is outside the model (NaN).
\<close>

definition arctan2 :: "real \<Rightarrow> real \<Rightarrow> real" where
  "arctan2 y x =
     (if 0 < x then arctan (y / x)
      else if x < 0 then (if 0 \<le> y then arctan (y / x) + pi else arctan (y / x) - pi)
      else if 0 < y then pi / 2 else if y < 0 then - (pi / 2) else 0)"

fun np_arctan2 :: "npfloat \<Rightarrow> npfloat \<Rightarrow> npfloat" where
  "np_arctan2 (Fin y) (Fin x) = Fin (arctan2 y x)"
| "np_arctan2 a b = NaN"

text \<open>
  The power \<^verbatim>\<open>x ** y\<close> of two floats, after C's \<^verbatim>\<open>pow\<close>: anything to the power 0
  is 1, and 1 to any power is 1, also for NaN.
\<close>

definition is_int :: "real \<Rightarrow> bool" where
  "is_int y = (of_int \<lfloor>y\<rfloor> = y)"

fun np_power :: "npfloat \<Rightarrow> npfloat \<Rightarrow> npfloat" where
  "np_power (Fin x) (Fin y) =
     (if y = 0 \<or> x = 1 then Fin 1
      else if 0 < x then Fin (x powr y)
      else if x = 0 then (if 0 < y then Fin 0 else PInf)
      else if is_int y then
        (if even \<lfloor>y\<rfloor> then Fin ((- x) powr y) else Fin (- ((- x) powr y)))
      else NaN)"
| "np_power NaN (Fin y) = (if y = 0 then Fin 1 else NaN)"
| "np_power (Fin x) NaN = (if x = 1 then Fin 1 else NaN)"
| "np_power (Fin x) PInf =
     (if \<bar>x\<bar> = 1 then Fin 1 else if \<bar>x\<bar> < 1 then Fin 0 else PInf)"
| "np_power (Fin x) NInf =
     (if \<bar>x\<bar> = 1 then Fin 1 else if \<bar>x\<bar> < 1 then PInf else Fin 0)"
| "np_power PInf (Fin y) = (if y = 0 then Fin 1 else if 0 < y then PInf else Fin 0)"
| "np_power NInf (Fin y) =
     (if y = 0 then Fin 1 else if y < 0 then Fin 0
      else if is_int y \<and> odd \<lfloor>y\<rfloor> then NInf else PInf)"
| "np_power PInf PInf = PInf"
| "np_power NInf PInf = PInf"
| "np_power PInf NInf = Fin 0"
| "np_power NInf NInf = Fin 0"
| "np_power a b = NaN"

section \<open>Errors and arrays\<close>

text \<open>
  Every exception of the program is a value: a function that can raise returns
  \<open>pyerr + 'a\<close>, with \<open>Inl\<close> for the exception.
\<close>

datatype pyerr =
    AttributeError string
  | ValueError
  | IndexError
  | TypeError
  | ZeroDivisionError
  | AssertionError
  | InputParameterError
  | InvalidFrequencyInput
  | LinAlgError

definition and_then :: "pyerr + 'a \<Rightarrow> ('a \<Rightarrow> pyerr + 'b) \<Rightarrow> pyerr + 'b" where
  "and_then r f = (case r of Inl e \<Rightarrow> Inl e | Inr x \<Rightarrow> f x)"

text \<open>
  A numpy array is its shape and its elements, read by a full index. Elements are only
  ever read at indices inside the shape. A scalar is an array of shape \<open>[]\<close>.
\<close>

record ndarray =
  shape :: "nat list"
  elem :: "nat list \<Rightarrow> npfloat"

definition nd_scalar :: "npfloat \<Rightarrow> ndarray" where
  "nd_scalar x = \<lparr>shape = [], elem = (\<lambda>idx. x)\<rparr>"

definition nd_of_list :: "npfloat list \<Rightarrow> ndarray" where
  "nd_of_list xs = \<lparr>shape = [length xs], elem = (\<lambda>idx. xs ! hd idx)\<rparr>"

definition nd_to_list :: "ndarray \<Rightarrow> npfloat list" where
  "nd_to_list a = map (\<lambda>i. elem a [i]) [0 ..< hd (shape a)]"

definition nd_of_matrix :: "npfloat list list \<Rightarrow> ndarray" where
  "nd_of_matrix m =
     \<lparr>shape = [length m, (if m = [] then 0 else length (hd m))],
      elem = (\<lambda>idx. m ! hd idx ! hd (tl idx))\<rparr>"

definition nd_map :: "(npfloat \<Rightarrow> npfloat) \<Rightarrow> ndarray \<Rightarrow> ndarray" where
  "nd_map f a = \<lparr>shape = shape a, elem = (\<lambda>idx. f (elem a idx))\<rparr>"

text \<open>All the indices of a shape, in row-major order.\<close>

fun indices :: "nat list \<Rightarrow> nat list list" where
  "indices [] = [[]]"
| "indices (d # ds) = concat (map (\<lambda>i. map (Cons i) (indices ds)) [0 ..< d])"

definition nd_any :: "(npfloat \<Rightarrow> bool) \<Rightarrow> ndarray \<Rightarrow> bool" where
  "nd_any P a = list_ex (\<lambda>idx. P (elem a idx)) (indices (shape a))"

subsection \<open>Broadcasting\<close>

text \<open>
  Two shapes are aligned at their last axis; an axis of length 1 stretches to the length
  of the other array's axis; any other disagreement is a ValueError.
\<close>

definition bdim :: "nat \<Rightarrow> nat \<Rightarrow> pyerr + nat" where
  "bdim d e = (if d = e then Inr d else if d = 1 then Inr e else if e = 1 then Inr d
               else Inl ValueError)"

fun bzip :: "nat list \<Rightarrow> nat list \<Rightarrow> pyerr + nat list" where
  "bzip [] [] = Inr []"
| "bzip (d # ds) (e # es) =
     and_then (bdim d e) (\<lambda>x. and_then (bzip ds es) (\<lambda>xs. Inr (x # xs)))"
| "bzip _ _ = Inl ValueError"

definition pad_shape :: "nat \<Rightarrow> nat list \<Rightarrow> nat list" where
  "pad_shape n sh = replicate (n - length sh) 1 @ sh"

definition broadcast_shape :: "nat list \<Rightarrow> nat list \<Rightarrow> pyerr + nat list" where
  "broadcast_shape a b =
     bzip (pad_shape (max (length a) (length b)) a) (pad_shape (max (length a) (length b)) b)"

text \<open>
  The index at which an operand of shape \<open>sh\<close> is read for the result index \<open>idx\<close>: the
  last \<open>length sh\<close> components, with 0 along every stretched axis.
\<close>

definition bidx :: "nat list \<Rightarrow> nat list \<Rightarrow> nat list" where
  "bidx sh idx =
     map2 (\<lambda>d i. if d = 1 then 0 else i) sh
       (replicate (length sh - length idx) 0 @ drop (length idx - length sh) idx)"

definition nd_binop ::
  "(npfloat \<Rightarrow> npfloat \<Rightarrow> npfloat) \<Rightarrow> ndarray \<Rightarrow> ndarray \<Rightarrow> pyerr + ndarray" where
  "nd_binop f a b =
     and_then (broadcast_shape (shape a) (shape b)) (\<lambda>s.
       Inr \<lparr>shape = s,
            elem = (\<lambda>idx. f (elem a (bidx (shape a) idx)) (elem b (bidx (shape b) idx)))\<rparr>)"

subsection \<open>Indexing\<close>

text \<open>
  The index expressions of the program: \<^verbatim>\<open>None\<close> (a new axis of length 1), \<^verbatim>\<open>:\<close>
  (a whole axis), \<^verbatim>\<open>...\<close> (all the axes the other items leave) and an integer.
  Axes not named by the expression follow unchanged.
\<close>

datatype item = NewAxis | Whole | Ell | At nat

fun consumed :: "item list \<Rightarrow> nat" where
  "consumed [] = 0"
| "consumed (NewAxis # its) = consumed its"
| "consumed (Ell # its) = consumed its"
| "consumed (_ # its) = Suc (consumed its)"

fun view_shape :: "item list \<Rightarrow> nat list \<Rightarrow> pyerr + nat list" where
  "view_shape [] sh = Inr sh"
| "view_shape (NewAxis # its) sh = and_then (view_shape its sh) (\<lambda>r. Inr (1 # r))"
| "view_shape (Ell # its) sh =
     (if consumed its \<le> length sh
      then and_then (view_shape its (drop (length sh - consumed its) sh))
             (\<lambda>r. Inr (take (length sh - consumed its) sh @ r))
      else Inl IndexError)"
| "view_shape (Whole # its) (d # sh) = and_then (view_shape its sh) (\<lambda>r. Inr (d # r))"
| "view_shape (At k # its) (d # sh) = (if k < d then view_shape its sh else Inl IndexError)"
| "view_shape (_ # its) [] = Inl IndexError"

text \<open>The index of the indexed array that an index of the view stands for.\<close>

fun view_index :: "item list \<Rightarrow> nat list \<Rightarrow> nat list \<Rightarrow> nat list" where
  "view_index [] sh idx = idx"
| "view_index (NewAxis # its) sh idx = view_index its sh (tl idx)"
| "view_index (Ell # its) sh idx =
     take (length sh - consumed its) idx
       @ view_index its (drop (length sh - consumed its) sh)
           (drop (length sh - consumed its) idx)"
| "view_index (Whole # its) sh idx = hd idx # view_index its (tl sh) (tl idx)"
| "view_index (At k # its) sh idx = k # view_index its (tl sh) idx"

text \<open>The index of the view at which an index of the indexed array appears, if it does.\<close>

fun view_inv :: "item list \<Rightarrow> nat list \<Rightarrow> nat list \<Rightarrow> nat list option" where
  "view_inv [] sh idx = Some idx"
| "view_inv (NewAxis # its) sh idx = map_option (Cons 0) (view_inv its sh idx)"
| "view_inv (Ell # its) sh idx =
     map_option (append (take (length sh - consumed its) idx))
       (view_inv its (drop (length sh - consumed its) sh)
          (drop (length sh - consumed its) idx))"
| "view_inv (Whole # its) sh idx = map_option (Cons (hd idx)) (view_inv its (tl sh) (tl idx))"
| "view_inv (At k # its) sh idx =
     (if hd idx = k then view_inv its (tl sh) (tl idx) else None)"

definition nd_getitem :: "ndarray \<Rightarrow> item list \<Rightarrow> pyerr + ndarray" where
  "nd_getitem a its =
     and_then (view_shape its (shape a)) (\<lambda>s.
       Inr \<lparr>shape = s, elem = (\<lambda>idx. elem a (view_index its (shape a) idx))\<rparr>)"

text \<open>
  Assignment \<^verbatim>\<open>a[its] = v\<close>: the value is broadcast to the shape of the view; leading
  axes of length 1 that the view does not have are dropped first.
\<close>

definition strip_ones :: "nat \<Rightarrow> nat list \<Rightarrow> nat list" where
  "strip_ones n sh = dropWhile (\<lambda>d. d = 1) (take (length sh - n) sh) @ drop (length sh - n) sh"

definition nd_setitem :: "ndarray \<Rightarrow> item list \<Rightarrow> ndarray \<Rightarrow> pyerr + ndarray" where
  "nd_setitem a its v =
     and_then (view_shape its (shape a)) (\<lambda>s.
       if broadcast_shape (strip_ones (length s) (shape v)) s = Inr s
       then Inr (a\<lparr>elem := (\<lambda>idx. case view_inv its (shape a) idx of
                                    None \<Rightarrow> elem a idx
                                  | Some j \<Rightarrow> elem v (bidx (shape v) j))\<rparr>)
       else Inl ValueError)"

subsection \<open>Frequency input\<close>

text \<open>
  Modelled from the spec: \<^verbatim>\<open>check_freq_input\<close> of the template module, which is not
  among the sources. The specification: validation normalizes a scalar or a
  one-dimensional sequence to a one-dimensional sequence of length at least 1 and fails
  with InvalidFrequencyInput on non-positive or empty input, and on an argument of the
  wrong rank.
\<close>

definition check_freq_input :: "ndarray \<Rightarrow> pyerr + ndarray" where
  "check_freq_input freqs =
     (case shape freqs of
        [] \<Rightarrow> if fl_less (Fin 0) (elem freqs [])
              then Inr \<lparr>shape = [1], elem = (\<lambda>idx. elem freqs [])\<rparr>
              else Inl InvalidFrequencyInput
      | [n] \<Rightarrow> if 0 < n \<and> list_all (\<lambda>f. fl_less (Fin 0) f) (nd_to_list freqs)
               then Inr freqs else Inl InvalidFrequencyInput
      | _ \<Rightarrow> Inl InvalidFrequencyInput)"

text \<open>\<^verbatim>\<open>len(a)\<close> of an array: the length of its first axis; a TypeError for a scalar.\<close>

definition nd_len :: "ndarray \<Rightarrow> pyerr + nat" where
  "nd_len a = (case shape a of [] \<Rightarrow> Inl TypeError | d # ds \<Rightarrow> Inr d)"

section \<open>The frequency correlation model\<close>

text \<open>
  \<^verbatim>\<open>frequency_decorr_model(freqs, correlation_length)\<close> of dust.py:
  \<^verbatim>\<open>log_dep = np.log(freqs[:, None] / freqs[None, :])\<close>,
  \<^verbatim>\<open>return np.exp(- 0.5 * (log_dep / correlation_length) ** 2)\<close>.
  For the one-dimensional \<open>freqs\<close> the broadcast \<open>freqs[:, None] / freqs[None, :]\<close> is the
  matrix whose row \<open>i\<close> holds \<open>freqs[i] / freqs[j]\<close> for every \<open>j\<close>. There is no test of
  \<open>correlation_length\<close> in the function.
\<close>

type_synonym matrix = "npfloat list list"

definition log_dep :: "npfloat list \<Rightarrow> matrix" where
  "log_dep freqs = map (\<lambda>fi. map (\<lambda>fj. np_log (fi / fj)) freqs) freqs"

definition frequency_decorr_model :: "npfloat list \<Rightarrow> npfloat \<Rightarrow> matrix" where
  "frequency_decorr_model freqs correlation_length =
     map (map (\<lambda>d. np_exp (Fin (- 0.5) * np_square (d / correlation_length))))
       (log_dep freqs)"

definition positive_freqs :: "real list \<Rightarrow> bool" where
  "positive_freqs fs = list_all (\<lambda>f. 0 < f) fs"

section \<open>Safe inversion and the decorrelation matrix (dust.py)\<close>

text \<open>
  Two-dimensional arrays of the linear algebra are lists of rows, all of one length.
  \<^verbatim>\<open>np.linalg.eigh\<close> is numpy's: it is a parameter \<open>eigh\<close> of every function that calls
  it, returning the eigenvalues and the matrix whose columns are the eigenvectors, or an
  error. The unit decorators of the functions belong to the units collaborator and are
  outside the model.
\<close>

type_synonym eigh_fun = "matrix \<Rightarrow> pyerr + (npfloat list \<times> matrix)"

definition mat_rows :: "matrix \<Rightarrow> nat" where
  "mat_rows m = length m"

definition mat_cols :: "matrix \<Rightarrow> nat" where
  "mat_cols m = (if m = [] then 0 else length (hd m))"

definition fl_sum :: "npfloat list \<Rightarrow> npfloat" where
  "fl_sum xs = foldr (+) xs (Fin 0)"

definition np_transpose :: "matrix \<Rightarrow> matrix" where
  "np_transpose m = map (\<lambda>j. map (\<lambda>row. row ! j) m) [0 ..< mat_cols m]"

text \<open>\<^verbatim>\<open>np.dot\<close> of two matrices: a ValueError unless the inner dimensions agree.\<close>

definition np_dot :: "matrix \<Rightarrow> matrix \<Rightarrow> pyerr + matrix" where
  "np_dot a b =
     (if mat_cols a = mat_rows b
      then Inr (map (\<lambda>row. map (\<lambda>col. fl_sum (map2 (*) row col)) (np_transpose b)) a)
      else Inl ValueError)"

definition np_diag :: "npfloat list \<Rightarrow> matrix" where
  "np_diag d =
     map (\<lambda>i. map (\<lambda>j. if i = j then d ! i else Fin 0) [0 ..< length d]) [0 ..< length d]"

text \<open>\<^verbatim>\<open>np.min\<close>: a ValueError on an empty array; NaN if any element is NaN.\<close>

definition np_min :: "npfloat list \<Rightarrow> pyerr + npfloat" where
  "np_min w = (if w = [] then Inl ValueError else Inr (foldl np_minimum (hd w) (tl w)))"

text \<open>
  The in-place sum \<^verbatim>\<open>mb += d\<close> of two matrices: \<open>d\<close> is broadcast to the shape of \<open>mb\<close>.
\<close>

definition mat_iadd :: "matrix \<Rightarrow> matrix \<Rightarrow> pyerr + matrix" where
  "mat_iadd mb d =
     (if (mat_rows d = mat_rows mb \<or> mat_rows d = 1)
         \<and> (mat_cols d = mat_cols mb \<or> mat_cols d = 1)
      then Inr (map (\<lambda>i. map (\<lambda>j. mb ! i ! j
                              + d ! (if mat_rows d = 1 then 0 else i)
                                  ! (if mat_cols d = 1 then 0 else j))
                        [0 ..< mat_cols mb]) [0 ..< mat_rows mb])
      else Inl ValueError)"

text \<open>
  \<^verbatim>\<open>invert_safe(matrix)\<close>. The loop
  \<^verbatim>\<open>while not w_ok: w, v = eigh(mb); wmin = np.min(w); if wmin > 0: w_ok = True\<close>
  \<^verbatim>\<open>else: mb += np.diag(2. * np.max([1E-14, -wmin]) * np.ones(len(mb)))\<close>
  has no bound in the source; the model counts the eigendecompositions it may still
  make, and \<open>None\<close> is the loop that has not ended within that number. After the loop:
  \<^verbatim>\<open>winv = 1. / w; return np.dot(v, np.dot(np.diag(winv), np.transpose(v)))\<close>.
\<close>

definition diagonal_load :: "npfloat \<Rightarrow> nat \<Rightarrow> matrix" where
  "diagonal_load wmin n =
     np_diag (map (\<lambda>one. Fin 2 * np_maximum (Fin (1 / 10 ^ 14)) (- wmin) * one)
                (replicate n (Fin 1)))"

definition reconstruct_inverse :: "npfloat list \<Rightarrow> matrix \<Rightarrow> pyerr + matrix" where
  "reconstruct_inverse w v =
     (let winv = map (\<lambda>x. Fin 1 / x) w in
      and_then (np_dot (np_diag winv) (np_transpose v)) (\<lambda>dv. np_dot v dv))"

fun invert_safe :: "nat \<Rightarrow> eigh_fun \<Rightarrow> matrix \<Rightarrow> (pyerr + matrix) option" where
  "invert_safe 0 eigh mb = None"
| "invert_safe (Suc fuel) eigh mb =
     (case eigh mb of
        Inl e \<Rightarrow> Some (Inl e)
      | Inr (w, v) \<Rightarrow>
          (case np_min w of
             Inl e \<Rightarrow> Some (Inl e)
           | Inr wmin \<Rightarrow>
               if fl_less (Fin 0) wmin then Some (reconstruct_inverse w v)
               else (case mat_iadd mb (diagonal_load wmin (length mb)) of
                       Inl e \<Rightarrow> Some (Inl e)
                     | Inr mb' \<Rightarrow> invert_safe fuel eigh mb')))"

text \<open>
  \<^verbatim>\<open>np.where(freqs_all == freq_constrained)\<close>: the positions that hold the constrained
  frequency. \<^verbatim>\<open>np.delete(a, obj)\<close> removes the positions \<open>obj\<close>; a position outside the
  array is an IndexError.
\<close>

definition np_where_eq :: "npfloat list \<Rightarrow> npfloat \<Rightarrow> nat list" where
  "np_where_eq xs v = filter (\<lambda>i. fl_eq (xs ! i) v) [0 ..< length xs]"

definition np_delete :: "'a list \<Rightarrow> nat list \<Rightarrow> pyerr + 'a list" where
  "np_delete xs obj =
     (if list_all (\<lambda>i. i < length xs) obj
      then Inr (map (\<lambda>i. xs ! i) (filter (\<lambda>i. i \<notin> set obj) [0 ..< length xs]))
      else Inl IndexError)"

text \<open>
  \<^verbatim>\<open>np.delete(a, obj, axis=1)\<close> on a matrix of \<open>ncols\<close> columns. The number of columns is
  an argument because a list of no rows does not record it.
\<close>

definition np_delete_cols :: "nat \<Rightarrow> matrix \<Rightarrow> nat list \<Rightarrow> pyerr + matrix" where
  "np_delete_cols ncols m obj =
     (if list_all (\<lambda>i. i < ncols) obj
      then Inr (map (\<lambda>row. map (\<lambda>j. row ! j)
                      (filter (\<lambda>j. j \<notin> set obj) [0 ..< ncols])) m)
      else Inl IndexError)"

text \<open>
  \<^verbatim>\<open>rho_inv[:, indref]\<close>, with \<open>indref\<close> the tuple that \<^verbatim>\<open>np.where\<close> returns, has shape
  \<open>(rows, 1, k)\<close>; only its elements in row-major order are used afterwards, because
  \<^verbatim>\<open>np.delete(rho_inv_cu, indref)\<close> without an axis flattens its argument.
\<close>

definition take_columns_flat :: "matrix \<Rightarrow> nat list \<Rightarrow> pyerr + npfloat list" where
  "take_columns_flat m obj =
     (if list_all (\<lambda>i. i < mat_cols m) obj
      then Inr (concat (map (\<lambda>row. map (\<lambda>j. row ! j) obj) m))
      else Inl IndexError)"

text \<open>
  \<^verbatim>\<open>get_decorrelation_matrix(freq_constrained, freqs_unconstrained, correlation_length)\<close>.
  The result is the pair \<open>(rho_covar, rho_mean)\<close>.
\<close>

definition square_root_covariance :: "npfloat list \<Rightarrow> matrix \<Rightarrow> pyerr + matrix" where
  "square_root_covariance rho_uu_w rho_uu_v =
     (let evals = np_diag (map (\<lambda>x. np_sqrt (np_maximum x (Fin 0))) rho_uu_w) in
      and_then (np_dot evals (np_transpose rho_uu_v)) (\<lambda>ev. np_dot rho_uu_v ev))"

definition lift_option ::
  "(pyerr + 'a) option \<Rightarrow> ('a \<Rightarrow> (pyerr + 'b) option) \<Rightarrow> (pyerr + 'b) option" where
  "lift_option r f =
     (case r of None \<Rightarrow> None | Some (Inl e) \<Rightarrow> Some (Inl e) | Some (Inr x) \<Rightarrow> f x)"

definition get_decorrelation_matrix ::
  "nat \<Rightarrow> eigh_fun \<Rightarrow> npfloat \<Rightarrow> npfloat list \<Rightarrow> npfloat
     \<Rightarrow> (pyerr + matrix \<times> matrix) option" where
  "get_decorrelation_matrix fuel eigh freq_constrained freqs_unconstrained correlation_length =
     (if \<not> fl_le (Fin 0) correlation_length then Some (Inl AssertionError)
      else
        lift_option (Some (check_freq_input (nd_scalar freq_constrained))) (\<lambda>fc.
        let freqs_all = nd_to_list fc @ freqs_unconstrained;
            indref = np_where_eq freqs_all (elem fc [0]);
            corrmatrix = frequency_decorr_model freqs_all correlation_length in
        lift_option (invert_safe fuel eigh corrmatrix) (\<lambda>rho_inv.
        lift_option (Some (np_delete rho_inv indref)) (\<lambda>rows_deleted.
        lift_option (Some (np_delete_cols (mat_cols rho_inv) rows_deleted indref)) (\<lambda>rho_uu0.
        lift_option (invert_safe fuel eigh rho_uu0) (\<lambda>rho_uu.
        lift_option (Some (take_columns_flat rho_inv indref)) (\<lambda>rho_inv_cu0.
        lift_option (Some (np_delete rho_inv_cu0 indref)) (\<lambda>cu.
        let rho_inv_cu = np_transpose [cu] in
        lift_option (Some (eigh rho_uu)) (\<lambda>(rho_uu_w, rho_uu_v).
        lift_option (Some (square_root_covariance rho_uu_w rho_uu_v)) (\<lambda>rho_covar.
        lift_option (Some (np_dot rho_uu rho_inv_cu)) (\<lambda>product.
        Some (Inr (rho_covar, map (map uminus) product)))))))))))))"

section \<open>SED primitives (dust.py)\<close>

text \<open>
  \<^verbatim>\<open>blackbody_nu\<close> is astropy's Planck function
  \<open>2 h \<nu>\<^sup>3 / (c\<^sup>2 (exp (h \<nu> / (k\<^sub>B T)) - 1))\<close>, computed with \<^verbatim>\<open>expm1\<close> on the frequency in
  Hz and converted, by a constant factor, to its flux unit. It raises ValueError on a
  negative temperature. The physical constants and the factor are parameters.
  Frequencies are held in GHz and temperatures in K throughout.
\<close>

record constants =
  planck_h :: real
  boltzmann_k :: real
  light_c :: real
  flux_factor :: real

definition blackbody_nu :: "constants \<Rightarrow> ndarray \<Rightarrow> ndarray \<Rightarrow> pyerr + ndarray" where
  "blackbody_nu cs in_x temperature =
     (let freq = nd_map (\<lambda>x. x * Fin (10 ^ 9)) in_x in
      if nd_any (\<lambda>t. fl_less t (Fin 0)) temperature then Inl ValueError
      else
        and_then (nd_binop (/) (nd_map (\<lambda>x. Fin (planck_h cs) * x) freq)
                     (nd_map (\<lambda>t. Fin (boltzmann_k cs) * t) temperature)) (\<lambda>log_boltz.
        let boltzm1 = nd_map np_expm1 log_boltz in
        and_then (nd_binop (/) (nd_map (\<lambda>x. Fin (2 * planck_h cs) * np_cube x) freq)
                     (nd_map (\<lambda>b. Fin ((light_c cs) ^ 2) * b) boltzm1)) (\<lambda>bb_nu.
        Inr (nd_map (\<lambda>x. x * Fin (flux_factor cs)) bb_nu))))"

text \<open>
  \<^verbatim>\<open>blackbody_ratio(freq_to, freq_from, temp)\<close>:
  \<^verbatim>\<open>return blackbody_nu(freq_to, temp) / blackbody_nu(freq_from, temp)\<close>.
\<close>

definition blackbody_ratio ::
  "constants \<Rightarrow> ndarray \<Rightarrow> ndarray \<Rightarrow> ndarray \<Rightarrow> pyerr + ndarray" where
  "blackbody_ratio cs freq_to freq_from temp =
     and_then (blackbody_nu cs freq_to temp) (\<lambda>num.
     and_then (blackbody_nu cs freq_from temp) (\<lambda>den.
     nd_binop (/) num den))"

text \<open>
  \<^verbatim>\<open>mbb_sed(freqs_to, freq_from, index, temp)\<close>:
  \<^verbatim>\<open>return (freqs_to / freq_from) ** (index - 2) * blackbody_ratio(freqs_to, freq_from, temp)\<close>.
\<close>

definition mbb_sed ::
  "constants \<Rightarrow> ndarray \<Rightarrow> ndarray \<Rightarrow> ndarray \<Rightarrow> ndarray \<Rightarrow> pyerr + ndarray" where
  "mbb_sed cs freqs_to freq_from index temp =
     and_then (nd_binop (/) freqs_to freq_from) (\<lambda>ratio.
     and_then (nd_binop (-) index (nd_scalar (Fin 2))) (\<lambda>expo.
     and_then (nd_binop np_power ratio expo) (\<lambda>pw.
     and_then (blackbody_ratio cs freqs_to freq_from temp) (\<lambda>bb.
     nd_binop (*) pw bb))))"

section \<open>Spinning dust (spdust.py)\<close>

text \<open>
  \<^verbatim>\<open>np.interp(x, xp, fp)\<close>: linear interpolation through the points \<open>(xp[k], fp[k])\<close>, for
  increasing \<open>xp\<close>; below the first point the first value, above the last point the last
  value; NaN stays NaN. An empty \<open>xp\<close>, or \<open>xp\<close> and \<open>fp\<close> of different lengths, is a
  ValueError.
\<close>

fun interp_from :: "npfloat \<Rightarrow> (npfloat \<times> npfloat) list \<Rightarrow> npfloat" where
  "interp_from x [] = NaN"
| "interp_from x [(x0, y0)] = y0"
| "interp_from x ((x0, y0) # (x1, y1) # ps) =
     (if fl_less x x1
      then (if fl_eq x x0 then y0 else (y1 - y0) / (x1 - x0) * (x - x0) + y0)
      else interp_from x ((x1, y1) # ps))"

definition interp1 :: "npfloat list \<Rightarrow> npfloat list \<Rightarrow> npfloat \<Rightarrow> npfloat" where
  "interp1 xp fp x =
     (if x = NaN then NaN
      else if fl_less x (hd xp) then hd fp
      else if fl_less (last xp) x then last fp
      else interp_from x (zip xp fp))"

definition np_interp :: "ndarray \<Rightarrow> npfloat list \<Rightarrow> npfloat list \<Rightarrow> pyerr + ndarray" where
  "np_interp x xp fp =
     (if xp = [] \<or> length xp \<noteq> length fp then Inl ValueError
      else Inr (nd_map (interp1 xp fp) x))"

text \<open>
  Division inside a function compiled by numba: between two scalars a zero divisor
  raises ZeroDivisionError (numba's default error model is Python's); with an array
  operand it is numpy's elementwise division.
\<close>

definition nb_truediv :: "ndarray \<Rightarrow> ndarray \<Rightarrow> pyerr + ndarray" where
  "nb_truediv a b =
     (if shape a = [] \<and> shape b = [] \<and> fl_eq (elem b []) (Fin 0)
      then Inl ZeroDivisionError
      else nd_binop (/) a b)"

text \<open>
  \<^verbatim>\<open>compute_spdust_scaling_numba(freq, freq_ref_I, freq_peak, emissivity)\<close>. The table
  \<open>emissivity\<close> is the pair of its two rows \<open>emissivity[0]\<close> and \<open>emissivity[1]\<close>.
\<close>

type_synonym emissivity = "npfloat list \<times> npfloat list"

definition compute_spdust_scaling_numba ::
  "npfloat \<Rightarrow> npfloat \<Rightarrow> ndarray \<Rightarrow> emissivity \<Rightarrow> pyerr + ndarray" where
  "compute_spdust_scaling_numba freq freq_ref_I freq_peak emissivity =
     and_then (nb_truediv (nd_scalar freq) freq_peak) (\<lambda>scaled_freq.
     and_then (nb_truediv (nd_scalar freq_ref_I) freq_peak) (\<lambda>scaled_ref_freq.
     and_then (nb_truediv (nd_scalar freq_ref_I) (nd_scalar freq)) (\<lambda>r.
     and_then (np_interp scaled_freq (fst emissivity) (snd emissivity)) (\<lambda>e.
     and_then (nd_binop (*) (nd_map np_square r) e) (\<lambda>num.
     and_then (np_interp scaled_ref_freq (fst emissivity) (snd emissivity)) (\<lambda>e_ref.
     nb_truediv num e_ref))))))"

text \<open>
  The in-place product \<^verbatim>\<open>a[its] *= v\<close>: the product of the view and \<open>v\<close> must have the
  shape of the view, and is written back.
\<close>

definition nd_imul :: "ndarray \<Rightarrow> item list \<Rightarrow> ndarray \<Rightarrow> pyerr + ndarray" where
  "nd_imul a its v =
     and_then (nd_getitem a its) (\<lambda>w.
     and_then (nd_binop (*) w v) (\<lambda>p.
     if shape p = shape w then nd_setitem a its p else Inl ValueError))"

text \<open>
  The state of a \<^verbatim>\<open>SpDust\<close> instance. \<^verbatim>\<open>SpDust.__init__\<close> reads the template and the
  emissivity table (reading is outside the model: the values read are the arguments) and
  divides the peak frequency, a scalar or a map, by the reference peak frequency:
  \<^verbatim>\<open>self.freq_peak /= freq_ref_peak\<close>.
\<close>

record spdust =
  I_ref :: ndarray
  freq_ref_I :: npfloat
  freq_peak :: ndarray
  emissivity :: emissivity

definition SpDust_init ::
  "ndarray \<Rightarrow> npfloat \<Rightarrow> emissivity \<Rightarrow> ndarray \<Rightarrow> npfloat \<Rightarrow> pyerr + spdust" where
  "SpDust_init map_I freq_ref_I_arg emissivity_arg freq_peak_arg freq_ref_peak =
     and_then (nd_binop (/) freq_peak_arg (nd_scalar freq_ref_peak)) (\<lambda>fp.
       Inr \<lparr>I_ref = map_I, freq_ref_I = freq_ref_I_arg, freq_peak = fp,
            emissivity = emissivity_arg\<rparr>)"

text \<open>
  \<^verbatim>\<open>compute_spdust_emission_numba\<close>: \<^verbatim>\<open>outputs = np.empty((len(freqs), 1, len(I_ref)))\<close>,
  then for every frequency
  \<^verbatim>\<open>outputs[i_freq, 0] = I_ref * compute_spdust_scaling_numba(freq, ...)\<close>.
  The contents of the fresh array are arbitrary: they are the parameter \<open>uninit\<close>.
\<close>

fun spdust_loop ::
  "nat \<Rightarrow> npfloat list \<Rightarrow> ndarray \<Rightarrow> npfloat \<Rightarrow> ndarray \<Rightarrow> emissivity \<Rightarrow> ndarray
     \<Rightarrow> pyerr + ndarray" where
  "spdust_loop i_freq [] I_ref_v fr fp em outputs = Inr outputs"
| "spdust_loop i_freq (freq # rest) I_ref_v fr fp em outputs =
     and_then (compute_spdust_scaling_numba freq fr fp em) (\<lambda>scaling.
     and_then (nd_binop (*) I_ref_v scaling) (\<lambda>v.
     and_then (nd_setitem outputs [At i_freq, At 0] v) (\<lambda>outputs'.
     spdust_loop (Suc i_freq) rest I_ref_v fr fp em outputs')))"

definition compute_spdust_emission_numba ::
  "(nat list \<Rightarrow> npfloat) \<Rightarrow> npfloat list \<Rightarrow> ndarray \<Rightarrow> npfloat \<Rightarrow> ndarray \<Rightarrow> emissivity
     \<Rightarrow> pyerr + ndarray" where
  "compute_spdust_emission_numba uninit freqs I_ref_v fr fp em =
     and_then (nd_len I_ref_v) (\<lambda>npix.
       spdust_loop 0 freqs I_ref_v fr fp em
         \<lparr>shape = [length freqs, 1, npix], elem = uninit\<rparr>)"

definition SpDust_get_emission ::
  "(nat list \<Rightarrow> npfloat) \<Rightarrow> spdust \<Rightarrow> ndarray \<Rightarrow> pyerr + ndarray" where
  "SpDust_get_emission uninit self freqs =
     and_then (check_freq_input freqs) (\<lambda>fs.
       compute_spdust_emission_numba uninit (nd_to_list fs) (I_ref self) (freq_ref_I self)
         (freq_peak self) (emissivity self))"

text \<open>
  \<^verbatim>\<open>SpDustPol\<close> adds the polarization angle, fixed at construction as
  \<^verbatim>\<open>np.arctan2(read_map(angle_U), read_map(angle_Q))\<close>, and the polarization fraction.
\<close>

record spdustpol = spdust +
  pol_angle :: ndarray
  pol_frac :: ndarray

definition SpDustPol_init ::
  "ndarray \<Rightarrow> npfloat \<Rightarrow> emissivity \<Rightarrow> ndarray \<Rightarrow> npfloat \<Rightarrow> ndarray \<Rightarrow> ndarray \<Rightarrow> ndarray
     \<Rightarrow> pyerr + spdustpol" where
  "SpDustPol_init map_I freq_ref_I_arg emissivity_arg freq_peak_arg freq_ref_peak
       pol_frac_arg angle_Q angle_U =
     and_then (SpDust_init map_I freq_ref_I_arg emissivity_arg freq_peak_arg freq_ref_peak)
       (\<lambda>base.
     and_then (nd_binop np_arctan2 angle_U angle_Q) (\<lambda>angle.
       Inr \<lparr>I_ref = I_ref base, freq_ref_I = freq_ref_I base, freq_peak = freq_peak base,
            emissivity = emissivity base, pol_angle = angle, pol_frac = pol_frac_arg\<rparr>))"

text \<open>
  \<^verbatim>\<open>compute_spdust_emission_pol_numba\<close>: for every frequency
  \<^verbatim>\<open>outputs[i_freq, I] = I_ref\<close>,
  \<^verbatim>\<open>outputs[i_freq, Q] = I_ref * pol_frac * np.cos(pol_angle)\<close>,
  \<^verbatim>\<open>outputs[i_freq, U] = I_ref * pol_frac * np.sin(pol_angle)\<close>, then
  \<^verbatim>\<open>outputs[i_freq, :] *= compute_spdust_scaling_numba(freq, ...)\<close>.
\<close>

fun spdust_pol_loop ::
  "nat \<Rightarrow> npfloat list \<Rightarrow> ndarray \<Rightarrow> npfloat \<Rightarrow> ndarray \<Rightarrow> emissivity \<Rightarrow> ndarray \<Rightarrow> ndarray
     \<Rightarrow> ndarray \<Rightarrow> pyerr + ndarray" where
  "spdust_pol_loop i_freq [] I_ref_v fr fp em angle pfrac outputs = Inr outputs"
| "spdust_pol_loop i_freq (freq # rest) I_ref_v fr fp em angle pfrac outputs =
     and_then (nd_setitem outputs [At i_freq, At 0] I_ref_v) (\<lambda>o1.
     and_then (nd_binop (*) I_ref_v pfrac) (\<lambda>ip.
     and_then (nd_binop (*) ip (nd_map np_cos angle)) (\<lambda>q.
     and_then (nd_setitem o1 [At i_freq, At 1] q) (\<lambda>o2.
     and_then (nd_binop (*) I_ref_v pfrac) (\<lambda>ip'.
     and_then (nd_binop (*) ip' (nd_map np_sin angle)) (\<lambda>u.
     and_then (nd_setitem o2 [At i_freq, At 2] u) (\<lambda>o3.
     and_then (compute_spdust_scaling_numba freq fr fp em) (\<lambda>scaling.
     and_then (nd_imul o3 [At i_freq, Whole] scaling) (\<lambda>o4.
     spdust_pol_loop (Suc i_freq) rest I_ref_v fr fp em angle pfrac o4)))))))))"

definition compute_spdust_emission_pol_numba ::
  "(nat list \<Rightarrow> npfloat) \<Rightarrow> npfloat list \<Rightarrow> ndarray \<Rightarrow> npfloat \<Rightarrow> ndarray \<Rightarrow> emissivity
     \<Rightarrow> ndarray \<Rightarrow> ndarray \<Rightarrow> pyerr + ndarray" where
  "compute_spdust_emission_pol_numba uninit freqs I_ref_v fr fp em angle pfrac =
     and_then (nd_len I_ref_v) (\<lambda>npix.
       spdust_pol_loop 0 freqs I_ref_v fr fp em angle pfrac
         \<lparr>shape = [length freqs, 3, npix], elem = uninit\<rparr>)"

definition SpDustPol_get_emission ::
  "(nat list \<Rightarrow> npfloat) \<Rightarrow> spdustpol \<Rightarrow> ndarray \<Rightarrow> pyerr + ndarray" where
  "SpDustPol_get_emission uninit self freqs =
     and_then (check_freq_input freqs) (\<lambda>fs.
       compute_spdust_emission_pol_numba uninit (nd_to_list fs) (I_ref self)
         (freq_ref_I self) (freq_peak self) (emissivity self) (pol_angle self)
         (pol_frac self))"

section \<open>The modified black body models (dust.py)\<close>

text \<open>
  An instance is its attribute dictionary. The private name \<^verbatim>\<open>self.__x\<close> written inside
  class \<^verbatim>\<open>ModifiedBlackBody\<close> is the attribute \<^verbatim>\<open>_ModifiedBlackBody__x\<close>. Reading an
  attribute that the dictionary does not hold is an AttributeError: the two classes of
  dust.py define nothing but \<^verbatim>\<open>__init__\<close> and \<^verbatim>\<open>get_emission\<close>, and whatever the base
  class \<^verbatim>\<open>Model\<close> provides is in the dictionary that \<open>model_init\<close> returns.
\<close>

datatype pyval = PNone | PFloat npfloat | PInt int | PPath string | PArray ndarray

type_synonym pyobject = "string \<Rightarrow> pyval option"

definition getattr :: "pyobject \<Rightarrow> string \<Rightarrow> pyerr + pyval" where
  "getattr self name = (case self name of None \<Rightarrow> Inl (AttributeError name) | Some v \<Rightarrow> Inr v)"

definition subscript :: "pyval \<Rightarrow> item list \<Rightarrow> pyerr + ndarray" where
  "subscript v its = (case v of PArray a \<Rightarrow> nd_getitem a its | _ \<Rightarrow> Inl TypeError)"

text \<open>Python's \<^verbatim>\<open>float(v)\<close>.\<close>

definition py_float :: "pyval \<Rightarrow> pyerr + npfloat" where
  "py_float v =
     (case v of
        PFloat x \<Rightarrow> Inr x
      | PInt i \<Rightarrow> Inr (Fin (of_int i))
      | PArray a \<Rightarrow> if prod_list (shape a) = 1
                     then Inr (elem a (replicate (length (shape a)) 0)) else Inl TypeError
      | _ \<Rightarrow> Inl TypeError)"

text \<open>
  The collaborators outside dust.py: \<^verbatim>\<open>read_map(path, nside)\<close>, \<^verbatim>\<open>hp.nside2npix(nside)\<close>,
  \<^verbatim>\<open>Model.__init__(self, mpi_comm)\<close>, the contents of an array fresh from \<^verbatim>\<open>np.empty\<close>,
  and the constants of \<^verbatim>\<open>blackbody_nu\<close>.
\<close>

record environment =
  read_map :: "pyval \<Rightarrow> pyval \<Rightarrow> pyerr + ndarray"
  nside2npix :: "pyval \<Rightarrow> pyerr + nat"
  model_init :: "pyval \<Rightarrow> pyerr + pyobject"
  empty_contents :: "nat list \<Rightarrow> npfloat"
  sed_constants :: constants

text \<open>
  \<^verbatim>\<open>ModifiedBlackBody.__init__(self, map_I, map_Q, map_U, unit_I, unit_Q, unit_U,\<close>
  \<^verbatim>\<open>freq_ref_I, freq_ref_P, map_mbb_index, map_mbb_temperature, nside, mpi_comm)\<close>.
  Every map is stored as \<^verbatim>\<open>read_map(...)[None, :]\<close>. The \<^verbatim>\<open>@property\<close> functions
  \<^verbatim>\<open>freq_ref_I\<close> and \<^verbatim>\<open>freq_ref_P\<close> and their setters are defined inside the body of
  \<^verbatim>\<open>__init__\<close>: they are local names of that call and nothing is assigned to \<open>self\<close>, so
  they leave no trace in the model.
\<close>

definition read_row :: "environment \<Rightarrow> pyval \<Rightarrow> pyval \<Rightarrow> pyerr + ndarray" where
  "read_row env path nside =
     and_then (read_map env path nside) (\<lambda>a. nd_getitem a [NewAxis, Whole])"

definition ModifiedBlackBody_init ::
  "environment \<Rightarrow> pyval \<Rightarrow> pyval \<Rightarrow> pyval \<Rightarrow> pyval \<Rightarrow> pyval \<Rightarrow> pyval \<Rightarrow> pyval \<Rightarrow> pyval
     \<Rightarrow> pyval \<Rightarrow> pyval \<Rightarrow> pyval \<Rightarrow> pyval \<Rightarrow> pyerr + pyobject" where
  "ModifiedBlackBody_init env map_I map_Q map_U unit_I unit_Q unit_U freq_ref_I_arg
       freq_ref_P_arg map_mbb_index map_mbb_temperature nside mpi_comm =
     and_then (model_init env mpi_comm) (\<lambda>self0.
     and_then (read_row env map_mbb_index nside) (\<lambda>mbb_index.
     and_then (read_row env map_mbb_temperature nside) (\<lambda>mbb_temperature.
     and_then (py_float freq_ref_I_arg) (\<lambda>fI.
     and_then (py_float freq_ref_P_arg) (\<lambda>fP.
     and_then (nside2npix env nside) (\<lambda>npix.
     and_then (read_row env map_I nside) (\<lambda>row_I.
     and_then (nd_setitem \<lparr>shape = [3, npix], elem = empty_contents env\<rparr> [At 0] row_I) (\<lambda>iqu1.
     and_then (read_row env map_Q nside) (\<lambda>row_Q.
     and_then (nd_setitem iqu1 [At 1] row_Q) (\<lambda>iqu2.
     and_then (read_row env map_U nside) (\<lambda>row_U.
     and_then (nd_setitem iqu2 [At 2] row_U) (\<lambda>iqu3.
     Inr (self0
       (''_ModifiedBlackBody__mbb_index'' \<mapsto> PArray mbb_index,
        ''_ModifiedBlackBody__mbb_temperature'' \<mapsto> PArray mbb_temperature,
        ''_ModifiedBlackBody__iqu_ref_freqs'' \<mapsto> PArray (nd_of_list [fI, fP, fP]),
        ''_ModifiedBlackBody__iqu_ref'' \<mapsto> PArray iqu3))))))))))))))"

text \<open>
  \<^verbatim>\<open>ModifiedBlackBody.get_emission(self, freqs)\<close>:
  \<^verbatim>\<open>scaling = mbb_sed(freqs[:, None, None], self.__iqu_ref_freqs[None, :, None],\<close>
  \<^verbatim>\<open>self.__mbb_index[None, None, :], self.__mbb_temperature[None, None, :])\<close>, then
  \<^verbatim>\<open>return scaling * self.__iqu_ref[None, ...]\<close>.
\<close>

definition ModifiedBlackBody_get_emission ::
  "environment \<Rightarrow> pyobject \<Rightarrow> ndarray \<Rightarrow> pyerr + ndarray" where
  "ModifiedBlackBody_get_emission env self freqs0 =
     and_then (check_freq_input freqs0) (\<lambda>freqs.
     and_then (nd_getitem freqs [Whole, NewAxis, NewAxis]) (\<lambda>a1.
     and_then (getattr self ''_ModifiedBlackBody__iqu_ref_freqs'') (\<lambda>v2.
     and_then (subscript v2 [NewAxis, Whole, NewAxis]) (\<lambda>a2.
     and_then (getattr self ''_ModifiedBlackBody__mbb_index'') (\<lambda>v3.
     and_then (subscript v3 [NewAxis, NewAxis, Whole]) (\<lambda>a3.
     and_then (getattr self ''_ModifiedBlackBody__mbb_temperature'') (\<lambda>v4.
     and_then (subscript v4 [NewAxis, NewAxis, Whole]) (\<lambda>a4.
     and_then (mbb_sed (sed_constants env) a1 a2 a3 a4) (\<lambda>scaling.
     and_then (getattr self ''_ModifiedBlackBody__iqu_ref'') (\<lambda>v5.
     and_then (subscript v5 [NewAxis, Ell]) (\<lambda>templates.
     nd_binop (*) scaling templates)))))))))))"

text \<open>
  \<^verbatim>\<open>DecorrelatedModifiedBlackBody.__init__(self, map_I, map_Q, map_U, freq_ref_I,\<close>
  \<^verbatim>\<open>freq_ref_P, map_mbb_index, map_mbb_temperature, nside, mpi_comm, correlation_length)\<close>
  passes its first nine arguments to the parent by position:
  \<^verbatim>\<open>ModifiedBlackBody.__init__(self, map_I, map_Q, map_U, freq_ref_I, freq_ref_P,\<close>
  \<^verbatim>\<open>map_mbb_index, map_mbb_temperature, nside, mpi_comm)\<close>. The parent's fourth to sixth
  parameters are \<open>unit_I\<close>, \<open>unit_Q\<close>, \<open>unit_U\<close>, so the arguments land three places
  further on and the parent's last three parameters keep their default \<^verbatim>\<open>None\<close>. Then
  \<^verbatim>\<open>self.correlation_length = correlation_length\<close>.
\<close>

definition DecorrelatedModifiedBlackBody_init ::
  "environment \<Rightarrow> pyval \<Rightarrow> pyval \<Rightarrow> pyval \<Rightarrow> pyval \<Rightarrow> pyval \<Rightarrow> pyval \<Rightarrow> pyval \<Rightarrow> pyval
     \<Rightarrow> pyval \<Rightarrow> pyval \<Rightarrow> pyerr + pyobject" where
  "DecorrelatedModifiedBlackBody_init env map_I map_Q map_U freq_ref_I_arg freq_ref_P_arg
       map_mbb_index map_mbb_temperature nside mpi_comm correlation_length =
     and_then (ModifiedBlackBody_init env map_I map_Q map_U freq_ref_I_arg freq_ref_P_arg
                 map_mbb_index map_mbb_temperature nside mpi_comm PNone PNone PNone)
       (\<lambda>self. Inr (self(''correlation_length'' \<mapsto> correlation_length)))"

text \<open>
  \<^verbatim>\<open>DecorrelatedModifiedBlackBody.get_emission(self, freqs)\<close>. \<^verbatim>\<open>np.random.randn\<close> reads
  and advances the state of numpy's global generator: the state is an argument and a
  result, and \<open>randn\<close> is a parameter. The reference frequency and the correlation length
  handed to \<open>get_decorrelation_matrix\<close> are scalars. The steps of the method: both
  calls of \<open>get_decorrelation_matrix\<close> (\<open>decorrelation_pairs\<close>); the two draws
  \<^verbatim>\<open>np.dot(rho_cov_I, np.random.randn(nfreqs))\<close> and
  \<^verbatim>\<open>np.dot(rho_cov_P, np.random.randn(nfreqs))\<close> (\<open>draw_and_decorrelate\<close>); the array
  \<open>decorr\<close> of shape \<open>(nfreqs, 3)\<close>, filled column by column, and the product
  \<^verbatim>\<open>decorr[..., None] * super().get_emission(freqs)\<close> (\<open>decorrelate\<close>).
\<close>

definition np_dot_vec :: "matrix \<Rightarrow> npfloat list \<Rightarrow> pyerr + npfloat list" where
  "np_dot_vec m z =
     (if mat_cols m = length z then Inr (map (\<lambda>row. fl_sum (map2 (*) row z)) m)
      else Inl ValueError)"

definition as_scalar :: "pyval \<Rightarrow> pyerr + npfloat" where
  "as_scalar v = (case v of PFloat x \<Rightarrow> Inr x | PInt i \<Rightarrow> Inr (Fin (of_int i))
                  | _ \<Rightarrow> Inl TypeError)"

definition decorr_column :: "matrix \<Rightarrow> npfloat list \<Rightarrow> pyerr + ndarray" where
  "decorr_column rho_mean extra =
     and_then (nd_getitem (nd_of_list extra) [Whole, NewAxis]) (\<lambda>e.
       nd_binop (+) (nd_of_matrix rho_mean) e)"

definition decorrelation_of ::
  "nat \<Rightarrow> eigh_fun \<Rightarrow> pyobject \<Rightarrow> string \<Rightarrow> ndarray \<Rightarrow> (pyerr + matrix \<times> matrix) option"
  where
  "decorrelation_of fuel eigh self name freqs =
     lift_option (Some (getattr self name)) (\<lambda>v.
     lift_option (Some (getattr self ''correlation_length'')) (\<lambda>vL.
     lift_option (Some (as_scalar vL)) (\<lambda>L.
     lift_option (Some (as_scalar v)) (\<lambda>f.
     get_decorrelation_matrix fuel eigh f (nd_to_list freqs) L))))"

definition decorrelation_pairs ::
  "nat \<Rightarrow> eigh_fun \<Rightarrow> pyobject \<Rightarrow> ndarray
     \<Rightarrow> (pyerr + ndarray \<times> (matrix \<times> matrix) \<times> (matrix \<times> matrix)) option" where
  "decorrelation_pairs fuel eigh self freqs0 =
     lift_option (Some (check_freq_input freqs0)) (\<lambda>freqs.
     lift_option (decorrelation_of fuel eigh self ''freq_ref_I'' freqs) (\<lambda>pair_I.
     lift_option (decorrelation_of fuel eigh self ''freq_ref_P'' freqs) (\<lambda>pair_P.
     Some (Inr (freqs, pair_I, pair_P)))))"

definition decorrelate ::
  "environment \<Rightarrow> pyobject \<Rightarrow> ndarray \<Rightarrow> matrix \<Rightarrow> npfloat list \<Rightarrow> matrix \<Rightarrow> npfloat list
     \<Rightarrow> pyerr + ndarray" where
  "decorrelate env self freqs rho_mean_I extra_I rho_mean_P extra_P =
     and_then (decorr_column rho_mean_I extra_I) (\<lambda>cI.
     and_then (nd_setitem \<lparr>shape = [last (shape freqs), 3], elem = (\<lambda>idx. Fin 0)\<rparr>
                 [Whole, At 0, NewAxis] cI) (\<lambda>d1.
     and_then (decorr_column rho_mean_P extra_P) (\<lambda>cQ.
     and_then (nd_setitem d1 [Whole, At 1, NewAxis] cQ) (\<lambda>d2.
     and_then (decorr_column rho_mean_P extra_P) (\<lambda>cU.
     and_then (nd_setitem d2 [Whole, At 2, NewAxis] cU) (\<lambda>d3.
     and_then (nd_getitem d3 [Ell, NewAxis]) (\<lambda>factor.
     and_then (ModifiedBlackBody_get_emission env self freqs) (\<lambda>emission.
     nd_binop (*) factor emission))))))))"

definition draw_and_decorrelate ::
  "('s \<Rightarrow> nat \<Rightarrow> npfloat list \<times> 's) \<Rightarrow> environment \<Rightarrow> pyobject \<Rightarrow> ndarray
     \<Rightarrow> matrix \<times> matrix \<Rightarrow> matrix \<times> matrix \<Rightarrow> 's \<Rightarrow> (pyerr + ndarray) \<times> 's" where
  "draw_and_decorrelate randn env self freqs pair_I pair_P rng =
     (let nfreqs = last (shape freqs);
          draw1 = randn rng nfreqs in
      case np_dot_vec (fst pair_I) (fst draw1) of
        Inl e \<Rightarrow> (Inl e, snd draw1)
      | Inr extra_I \<Rightarrow>
          (let draw2 = randn (snd draw1) nfreqs in
           (and_then (np_dot_vec (fst pair_P) (fst draw2)) (\<lambda>extra_P.
              decorrelate env self freqs (snd pair_I) extra_I (snd pair_P) extra_P),
            snd draw2)))"

definition DecorrelatedModifiedBlackBody_get_emission ::
  "nat \<Rightarrow> eigh_fun \<Rightarrow> ('s \<Rightarrow> nat \<Rightarrow> npfloat list \<times> 's) \<Rightarrow> environment \<Rightarrow> pyobject
     \<Rightarrow> ndarray \<Rightarrow> 's \<Rightarrow> (pyerr + ndarray) option \<times> 's" where
  "DecorrelatedModifiedBlackBody_get_emission fuel eigh randn env self freqs0 rng =
     (case decorrelation_pairs fuel eigh self freqs0 of
        None \<Rightarrow> (None, rng)
      | Some (Inl e) \<Rightarrow> (Some (Inl e), rng)
      | Some (Inr triple) \<Rightarrow>
          (let r = draw_and_decorrelate randn env self (fst triple) (fst (snd triple))
                     (snd (snd triple)) rng
           in (Some (fst r), snd r)))"

section \<open>Notions used in the statements\<close>

text \<open>An index inside a shape, and the shape and one entry of a result.\<close>

definition valid_index :: "nat list \<Rightarrow> nat list \<Rightarrow> bool" where
  "valid_index sh idx \<longleftrightarrow> list_all2 (<) idx sh"

definition result_shape :: "pyerr + ndarray \<Rightarrow> pyerr + nat list" where
  "result_shape r = and_then r (\<lambda>a. Inr (shape a))"

definition entry :: "pyerr + ndarray \<Rightarrow> nat list \<Rightarrow> pyerr + npfloat" where
  "entry r idx = and_then r (\<lambda>a. Inr (elem a idx))"

text \<open>Positive physical constants, and Planck's law as a real function.\<close>

definition valid_constants :: "constants \<Rightarrow> bool" where
  "valid_constants cs \<longleftrightarrow>
     0 < planck_h cs \<and> 0 < boltzmann_k cs \<and> 0 < light_c cs \<and> 0 < flux_factor cs"

definition planck :: "constants \<Rightarrow> real \<Rightarrow> real \<Rightarrow> real" where
  "planck cs f T =
     2 * planck_h cs * (f * 10 ^ 9) ^ 3 /
       ((light_c cs) ^ 2 * (exp (planck_h cs * (f * 10 ^ 9) / (boltzmann_k cs * T)) - 1))
     * flux_factor cs"

text \<open>
  The exponential term of Planck's law is inside the range of the doubles.
\<close>

definition expm1_in_range :: "constants \<Rightarrow> real \<Rightarrow> real \<Rightarrow> bool" where
  "expm1_in_range cs f T \<longleftrightarrow>
     exp (planck_h cs * (f * 10 ^ 9) / (boltzmann_k cs * T)) - 1 \<le> max_double"

text \<open>
  The spinning-dust scaling as the specification writes it, for one pixel:
  \<open>(freqRefI / freq)\<^sup>2 * interp (freq / freqPeak) / interp (freqRefI / freqPeak)\<close>.
\<close>

definition spdust_scaling :: "npfloat \<Rightarrow> npfloat \<Rightarrow> npfloat \<Rightarrow> emissivity \<Rightarrow> npfloat" where
  "spdust_scaling freq fr peak em =
     np_square (fr / freq) * interp1 (fst em) (snd em) (freq / peak)
       / interp1 (fst em) (snd em) (fr / peak)"

definition valid_emissivity :: "emissivity \<Rightarrow> bool" where
  "valid_emissivity em \<longleftrightarrow> fst em \<noteq> [] \<and> length (fst em) = length (snd em)"

text \<open>
  The value at pixel \<open>x\<close> of a quantity that is a scalar or a map, and the three
  polarization channels before the frequency scaling.
\<close>

definition pix :: "ndarray \<Rightarrow> nat \<Rightarrow> npfloat" where
  "pix a x = elem a (bidx (shape a) [x])"

definition pol_base :: "ndarray \<Rightarrow> ndarray \<Rightarrow> ndarray \<Rightarrow> nat \<Rightarrow> nat \<Rightarrow> npfloat" where
  "pol_base iref pfrac angle q x =
     (if q = 0 then elem iref [x]
      else if q = 1 then elem iref [x] * pix pfrac x * np_cos (elem angle [x])
      else elem iref [x] * pix pfrac x * np_sin (elem angle [x]))"

text \<open>
  Real matrices and their eigenvalues. \<open>fmat\<close> embeds a real matrix in the arrays of the
  program; \<open>load c B\<close> is \<open>B\<close> with \<open>c\<close> added to every diagonal entry; \<open>ev\<close> is an
  eigenvalue of the \<open>n\<close>-by-\<open>n\<close> matrix \<open>B\<close> if \<open>B v = ev v\<close> for some vector \<open>v\<close> that is
  not zero. \<open>eigh_ok eigh B\<close> is what numpy promises of \<^verbatim>\<open>eigh\<close> on a symmetric real
  matrix: it returns real eigenvalues, and they are exactly the eigenvalues of \<open>B\<close>.
\<close>

definition fmat :: "real list list \<Rightarrow> matrix" where
  "fmat B = map (map Fin) B"

definition square :: "nat \<Rightarrow> 'a list list \<Rightarrow> bool" where
  "square n B \<longleftrightarrow> length B = n \<and> (\<forall>row \<in> set B. length row = n)"





text \<open>
  An eigendecomposition for examples: exact on 1-by-1 matrices and on 2-by-2 matrices
  \<open>[[a, b], [b, a]]\<close> with \<open>b \<ge> 0\<close>, whose eigenvalues are \<open>a - b\<close> and \<open>a + b\<close>; empty
  on the empty matrix; a LinAlgError on every other matrix.
\<close>

fun eigh_example :: eigh_fun where
  "eigh_example [] = Inr ([], [])"
| "eigh_example [[Fin a]] = Inr ([Fin a], [[Fin 1]])"
| "eigh_example [[Fin a, Fin b], [Fin b', Fin a']] =
     (if a = a' \<and> b = b' \<and> 0 \<le> b
      then Inr ([Fin (a - b), Fin (a + b)],
                [[Fin (1 / sqrt 2), Fin (1 / sqrt 2)],
                 [Fin (- (1 / sqrt 2)), Fin (1 / sqrt 2)]])
      else Inl LinAlgError)"
| "eigh_example m = Inl LinAlgError"


text \<open>
  Planck's law on one frequency and one temperature, as \<open>blackbody_nu\<close> computes it, and
  the modified black body scaling of the specification for one frequency, reference
  frequency, spectral index and temperature:
  \<open>(f / f_ref)\<^bsup>index - 2\<^esup> * blackbodyRatio (f, f_ref, T)\<close>.
\<close>

definition bnu :: "constants \<Rightarrow> npfloat \<Rightarrow> npfloat \<Rightarrow> npfloat" where
  "bnu cs f T =
     Fin (2 * planck_h cs) * np_cube (f * Fin (10 ^ 9))
       / (Fin ((light_c cs) ^ 2)
          * np_expm1 (Fin (planck_h cs) * (f * Fin (10 ^ 9)) / (Fin (boltzmann_k cs) * T)))
     * Fin (flux_factor cs)"

definition mbb_value :: "constants \<Rightarrow> npfloat \<Rightarrow> npfloat \<Rightarrow> npfloat \<Rightarrow> npfloat \<Rightarrow> npfloat" where
  "mbb_value cs f fr idx T =
     np_power (f / fr) (idx - Fin 2) * (bnu cs f T / bnu cs fr T)"

text \<open>
  The constants in SI units (CODATA 2014), with the factor 1000 from
  \<open>W m\<^sup>-\<^sup>2 Hz\<^sup>-\<^sup>1\<close> to \<open>erg s\<^sup>-\<^sup>1 cm\<^sup>-\<^sup>2 Hz\<^sup>-\<^sup>1\<close>.
\<close>

definition si_constants :: constants where
  "si_constants =
     \<lparr>planck_h = 6.626070040 / 10 ^ 34, boltzmann_k = 1.38064852 / 10 ^ 23,
      light_c = 299792458, flux_factor = 1000\<rparr>"

text \<open>
  An example: the collaborators of a sky of 12 pixels (\<open>nside = 1\<close>) with constant maps, a
  base class that provides no attributes, the model built from them with both reference
  frequencies at 353 GHz, and a generator whose state counts the draws made.
\<close>

definition example_map :: "real \<Rightarrow> ndarray" where
  "example_map v = \<lparr>shape = [12], elem = (\<lambda>idx. Fin v)\<rparr>"

definition example_env :: environment where
  "example_env =
     \<lparr>read_map = (\<lambda>path nside.
         if nside \<noteq> PInt 1 then Inl TypeError
         else if path = PPath ''dust_I'' then Inr (example_map 10)
         else if path = PPath ''dust_Q'' then Inr (example_map 2)
         else if path = PPath ''dust_U'' then Inr (example_map 3)
         else if path = PPath ''dust_index'' then Inr (example_map (3 / 2))
         else if path = PPath ''dust_temperature'' then Inr (example_map 20)
         else Inl TypeError),
      nside2npix = (\<lambda>nside. case nside of
                      PInt n \<Rightarrow> if 0 < n then Inr (nat (12 * n * n)) else Inl ValueError
                    | _ \<Rightarrow> Inl TypeError),
      model_init = (\<lambda>mpi_comm. Inr Map.empty),
      empty_contents = (\<lambda>idx. NaN),
      sed_constants = si_constants\<rparr>"

definition example_mbb :: "pyerr + pyobject" where
  "example_mbb =
     ModifiedBlackBody_init example_env (PPath ''dust_I'') (PPath ''dust_Q'') (PPath ''dust_U'')
       PNone PNone PNone (PFloat (Fin 353)) (PFloat (Fin 353)) (PPath ''dust_index'')
       (PPath ''dust_temperature'') (PInt 1) PNone"

definition counting_randn :: "nat \<Rightarrow> nat \<Rightarrow> npfloat list \<times> nat" where
  "counting_randn draws n = (replicate n (Fin 0), Suc draws)"

text \<open>The base class \<^verbatim>\<open>Model\<close> provides no attribute \<open>freq_ref_I\<close> or \<open>freq_ref_P\<close>.\<close>

definition base_without_freq_ref :: "environment \<Rightarrow> bool" where
  "base_without_freq_ref env \<longleftrightarrow>
     (\<forall>comm b. model_init env comm = Inr b \<longrightarrow>
        b ''freq_ref_I'' = None \<and> b ''freq_ref_P'' = None)"

section \<open>Properties\<close>

subsection \<open>Basic facts\<close>

lemma and_then_simps [simp]:
  "and_then (Inl e) f = Inl e"
  "and_then (Inr x) f = f x"
  by (simp_all add: and_then_def)

lemma np_power_one [simp]: "np_power (Fin 1) b = Fin 1"
  by (cases b) simp_all

lemma fin_div_self [simp]: "x \<noteq> 0 \<Longrightarrow> Fin x / Fin x = Fin 1"
  by simp

lemma broadcast_nil [simp]: "broadcast_shape [] [] = Inr []"
  by (simp add: broadcast_shape_def pad_shape_def)

lemma bidx_nil [simp]: "bidx [] idx = []"
  by (simp add: bidx_def)

lemma nd_binop_scalar [simp]:
  "nd_binop f (nd_scalar x) (nd_scalar y) = Inr (nd_scalar (f x y))"
  by (simp add: nd_binop_def nd_scalar_def)

lemma nd_map_scalar [simp]: "nd_map f (nd_scalar x) = nd_scalar (f x)"
  by (simp add: nd_map_def nd_scalar_def)

lemma nd_any_scalar [simp]: "nd_any P (nd_scalar x) = P x"
  by (simp add: nd_any_def nd_scalar_def)

lemma planck_pos:
  assumes "valid_constants cs" "0 < f" "0 < T"
  shows "0 < planck cs f T"
proof -
  have "0 < planck_h cs * (f * 10 ^ 9) / (boltzmann_k cs * T)"
    using assms by (simp add: valid_constants_def)
  then have "0 < exp (planck_h cs * (f * 10 ^ 9) / (boltzmann_k cs * T)) - 1"
    by simp
  then show ?thesis
    using assms unfolding planck_def valid_constants_def
    by (intro mult_pos_pos divide_pos_pos zero_less_power) simp_all
qed

lemma max_double_bounds: "3 \<le> max_double" "max_double + 1 < 2 ^ 1024"
  unfolding max_double_def by simp_all

lemma exp_847: "(2::real) ^ 1024 \<le> exp 847"
proof -
  have a: "(5/4::real) \<le> exp (1/4)" using exp_ge_add_one_self [of "1/4"] by simp
  have "(2::real) ^ 9 \<le> (5/4) ^ 28" by (simp add: power_divide)
  also have "\<dots> \<le> exp (1/4) ^ 28" using a by (intro power_mono) simp_all
  finally have b: "(2::real) ^ 9 \<le> exp (1/4) ^ 28" .
  have "(2::real) ^ 1024 \<le> (2 ^ 9) ^ 121"
    unfolding power_mult [symmetric] by (rule power_increasing) simp_all
  also have "\<dots> \<le> (exp (1/4) ^ 28) ^ 121" using b by (intro power_mono) simp_all
  also have "\<dots> = exp (1/4) ^ (28 * 121)" by (simp only: power_mult)
  also have "\<dots> = exp (of_nat (28 * 121) * (1/4))" by (simp only: exp_of_nat_mult)
  also have "of_nat (28 * 121) * (1/4) = (847::real)" by simp
  finally show ?thesis .
qed

lemma nd_scalar_inject [simp]: "nd_scalar a = nd_scalar b \<longleftrightarrow> a = b"
  by (auto simp: nd_scalar_def dest: fun_cong)

lemma blackbody_nu_bnu:
  assumes "\<not> fl_less T (Fin 0)"
  shows "blackbody_nu cs (nd_scalar f) (nd_scalar T) = Inr (nd_scalar (bnu cs f T))"
  using assms by (simp add: blackbody_nu_def Let_def bnu_def)

lemma bnu_fin:
  assumes "valid_constants cs" "0 < f" "0 < T" "expm1_in_range cs f T"
  shows "bnu cs (Fin f) (Fin T) = Fin (planck cs f T)"
proof -
  have "0 < planck_h cs * (f * 10 ^ 9) / (boltzmann_k cs * T)"
    using assms by (simp add: valid_constants_def)
  then have e: "exp (planck_h cs * (f * 10 ^ 9) / (boltzmann_k cs * T)) \<noteq> 1"
    by (metis exp_eq_one_iff less_irrefl)
  have r: "\<not> max_double < exp (planck_h cs * (f * 10 ^ 9) / (boltzmann_k cs * T)) - 1"
    using assms(4) by (simp add: expm1_in_range_def)
  have k: "boltzmann_k cs \<noteq> 0" "T \<noteq> 0" "light_c cs \<noteq> 0"
    using assms by (simp_all add: valid_constants_def)
  have x: "Fin (planck_h cs) * (Fin f * Fin (10 ^ 9)) / (Fin (boltzmann_k cs) * Fin T)
      = Fin (planck_h cs * (f * 10 ^ 9) / (boltzmann_k cs * T))"
    using k by simp
  show ?thesis
    unfolding bnu_def x np_expm1.simps if_not_P [OF r]
    using k e by (simp add: planck_def)
qed

lemma blackbody_nu_scalar:
  assumes "valid_constants cs" "0 < f" "0 < T" "expm1_in_range cs f T"
  shows "blackbody_nu cs (nd_scalar (Fin f)) (nd_scalar (Fin T)) =
           Inr (nd_scalar (Fin (planck cs f T)))"
  using assms by (simp add: blackbody_nu_bnu bnu_fin)

lemma self_ratio: "Fin 1 * (b / b) = (if is_fin b \<and> b \<noteq> Fin 0 then Fin 1 else NaN)"
  by (cases b) simp_all

lemma mbb_sed_anchor:
  assumes "0 < f" "0 < T"
  shows "mbb_sed cs (nd_scalar (Fin f)) (nd_scalar (Fin f)) (nd_scalar idx) (nd_scalar (Fin T))
           = Inr (nd_scalar (if is_fin (bnu cs (Fin f) (Fin T)) \<and> bnu cs (Fin f) (Fin T) \<noteq> Fin 0
                             then Fin 1 else NaN))"
proof -
  have t: "\<not> fl_less (Fin T) (Fin 0)" using assms(2) by simp
  have f: "Fin f / Fin f = Fin 1" using assms(1) by simp
  show ?thesis
    unfolding mbb_sed_def blackbody_ratio_def blackbody_nu_bnu [OF t]
    by (simp add: f self_ratio del: divide_npfloat.simps times_npfloat.simps)
qed

lemma si_valid: "valid_constants si_constants"
  by (simp add: valid_constants_def si_constants_def)

lemma si_overflow_353: "bnu si_constants (Fin 353) (Fin (1 / 50)) = Fin 0"
proof -
  let ?q = "planck_h si_constants * (353 * 10 ^ 9) / (boltzmann_k si_constants * (1 / 50))"
  have "847 \<le> ?q" by (simp add: si_constants_def)
  then have "exp 847 \<le> exp ?q" by simp
  with exp_847 max_double_bounds(2) have r: "max_double < exp ?q - 1" by linarith
  have x: "Fin (planck_h si_constants) * (Fin 353 * Fin (10 ^ 9))
             / (Fin (boltzmann_k si_constants) * Fin (1 / 50)) = Fin ?q"
    by (simp add: si_constants_def)
  have c: "Fin ((light_c si_constants)\<^sup>2) * PInf = PInf"
    by (simp add: si_constants_def)
  show ?thesis
    unfolding bnu_def x np_expm1.simps if_P [OF r] c by simp
qed

lemma si_range_353_20: "expm1_in_range si_constants 353 20"
proof -
  let ?q = "planck_h si_constants * (353 * 10 ^ 9) / (boltzmann_k si_constants * 20)"
  have "?q \<le> 1" by (simp add: si_constants_def)
  then have "exp ?q \<le> exp 1" by simp
  also have "\<dots> \<le> 3" by (rule exp_le)
  finally show ?thesis unfolding expm1_in_range_def using max_double_bounds(1) by linarith
qed


lemma bdim_simps [simp]:
  "bdim (Suc 0) e = Inr e" "bdim d (Suc 0) = Inr d" "bdim d d = Inr d"
  by (auto simp: bdim_def)

lemma bzip_ones_left [simp]: "bzip (replicate (length sh) (Suc 0)) sh = Inr sh"
  by (induction sh) simp_all

lemma bzip_ones_right [simp]: "bzip sh (replicate (length sh) (Suc 0)) = Inr sh"
  by (induction sh) simp_all

lemma bzip_same [simp]: "bzip sh sh = Inr sh"
  by (induction sh) simp_all

lemma broadcast_shape_scalar [simp]:
  "broadcast_shape [] sh = Inr sh" "broadcast_shape sh [] = Inr sh"
  by (simp_all add: broadcast_shape_def pad_shape_def)

lemma broadcast_shape_same [simp]: "broadcast_shape sh sh = Inr sh"
  by (simp add: broadcast_shape_def pad_shape_def)

lemma map2_keep:
  "list_all2 (<) idx sh \<Longrightarrow> map2 (\<lambda>d i. if d = Suc 0 then 0 else i) sh idx = idx"
proof (induction sh arbitrary: idx)
  case Nil
  then show ?case by simp
next
  case (Cons d sh)
  then obtain i rest where "idx = i # rest" "i < d" "list_all2 (<) rest sh"
    by (auto simp: list_all2_Cons2)
  with Cons.IH [of rest] show ?case by auto
qed

lemma nd_scalar_sel [simp]: "shape (nd_scalar x) = []" "elem (nd_scalar x) idx = x"
  by (simp_all add: nd_scalar_def)

lemma nd_map_sel [simp]:
  "shape (nd_map f a) = shape a" "elem (nd_map f a) idx = f (elem a idx)"
  by (simp_all add: nd_map_def)

lemma nd_binop_left0:
  "shape a = [] \<Longrightarrow> nd_binop f a b =
     Inr \<lparr>shape = shape b, elem = (\<lambda>idx. f (elem a []) (elem b (bidx (shape b) idx)))\<rparr>"
  by (simp add: nd_binop_def)

lemma nd_binop_right0:
  "shape b = [] \<Longrightarrow> nd_binop f a b =
     Inr \<lparr>shape = shape a, elem = (\<lambda>idx. f (elem a (bidx (shape a) idx)) (elem b []))\<rparr>"
  by (simp add: nd_binop_def)

lemma bidx_valid [simp]: "valid_index sh idx \<Longrightarrow> bidx sh idx = idx"
  by (simp add: valid_index_def bidx_def map2_keep list_all2_lengthD)

lemma valid_index_nil [simp]: "valid_index [] idx \<longleftrightarrow> idx = []"
  by (simp add: valid_index_def)

lemma valid_index_Cons [simp]:
  "valid_index (d # sh) (i # idx) \<longleftrightarrow> i < d \<and> valid_index sh idx"
  by (simp add: valid_index_def)

lemma nd_binop_scalar_left:
  "nd_binop f (nd_scalar x) b =
     Inr \<lparr>shape = shape b, elem = (\<lambda>idx. f x (elem b (bidx (shape b) idx)))\<rparr>"
  by (simp add: nd_binop_def nd_scalar_def)

lemma nd_binop_same_shape:
  "shape a = shape b \<Longrightarrow> nd_binop f a b =
     Inr \<lparr>shape = shape b,
          elem = (\<lambda>idx. f (elem a (bidx (shape b) idx)) (elem b (bidx (shape b) idx)))\<rparr>"
  by (simp add: nd_binop_def)

lemma nd_binop_scalar_right:
  "nd_binop f a (nd_scalar y) =
     Inr \<lparr>shape = shape a, elem = (\<lambda>idx. f (elem a (bidx (shape a) idx)) y)\<rparr>"
  by (simp add: nd_binop_def nd_scalar_def)

lemma nb_truediv_array:
  "shape b \<noteq> [] \<Longrightarrow> nb_truediv a b = nd_binop (/) a b"
  by (simp add: nb_truediv_def)

lemma nb_truediv_scalars:
  "nb_truediv (nd_scalar x) (nd_scalar y) =
     (if fl_eq y (Fin 0) then Inl ZeroDivisionError else Inr (nd_scalar (x / y)))"
  by (simp add: nb_truediv_def nd_scalar_def nd_binop_def)

lemma np_interp_valid:
  "valid_emissivity em \<Longrightarrow>
     np_interp x (fst em) (snd em) = Inr (nd_map (interp1 (fst em) (snd em)) x)"
  by (simp add: np_interp_def valid_emissivity_def)

lemma spdust_scaling_array:
  assumes "valid_emissivity em" "shape fpk \<noteq> []" "\<not> fl_eq freq (Fin 0)"
  shows "\<exists>r. compute_spdust_scaling_numba freq fr fpk em = Inr r
           \<and> shape r = shape fpk
           \<and> (\<forall>idx. valid_index (shape fpk) idx \<longrightarrow>
                 elem r idx = spdust_scaling freq fr (elem fpk idx) em)"
  using assms
  by (simp add: compute_spdust_scaling_numba_def nb_truediv_array nb_truediv_scalars
      nd_binop_left0 np_interp_valid nd_binop_same_shape spdust_scaling_def)

lemma spdust_scaling_scalar:
  assumes "valid_emissivity em" "\<not> fl_eq freq (Fin 0)" "\<not> fl_eq peak (Fin 0)"
    "\<not> fl_eq (interp1 (fst em) (snd em) (fr / peak)) (Fin 0)"
  shows "compute_spdust_scaling_numba freq fr (nd_scalar peak) em =
           Inr (nd_scalar (spdust_scaling freq fr peak em))"
  using assms
  by (simp add: compute_spdust_scaling_numba_def nb_truediv_scalars
      np_interp_valid spdust_scaling_def)

lemma positive_freqs_nth: "positive_freqs fs \<Longrightarrow> i < length fs \<Longrightarrow> 0 < fs ! i"
  by (simp add: positive_freqs_def list_all_length)

lemma decorr_entry:
  assumes "i < length fs" "j < length fs"
  shows "frequency_decorr_model (map Fin fs) L ! i ! j =
         np_exp (Fin (- 0.5) * np_square (np_log (Fin (fs ! i) / Fin (fs ! j)) / L))"
  using assms by (simp add: frequency_decorr_model_def log_dep_def)

lemma decorr_entry_fin:
  assumes "positive_freqs fs" "i < length fs" "j < length fs" "0 < L"
  shows "frequency_decorr_model (map Fin fs) (Fin L) ! i ! j =
         Fin (exp (- 0.5 * (ln (fs ! i / fs ! j) / L) ^ 2))"
proof -
  have pi: "0 < fs ! i" and pj: "0 < fs ! j"
    using assms positive_freqs_nth by blast+
  then have "0 < fs ! i / fs ! j" by simp
  with pj assms show ?thesis by (simp add: decorr_entry)
qed

text \<open>
  C6. For positive frequencies and a correlation length \<open>L > 0\<close> the matrix is square,
  entry \<open>(i, j)\<close> is \<open>exp (- 0.5 * (ln (freqs[i] / freqs[j]) / L)\<^sup>2)\<close>, the diagonal is
  exactly 1 and entry \<open>(i, j)\<close> equals entry \<open>(j, i)\<close>.
\<close>

theorem frequency_decorr_model_entries:
  assumes "positive_freqs fs" and "0 < L"
  shows "length (frequency_decorr_model (map Fin fs) (Fin L)) = length fs
    \<and> (\<forall>i < length fs.
          length (frequency_decorr_model (map Fin fs) (Fin L) ! i) = length fs
        \<and> frequency_decorr_model (map Fin fs) (Fin L) ! i ! i = Fin 1
        \<and> (\<forall>j < length fs.
              frequency_decorr_model (map Fin fs) (Fin L) ! i ! j =
                Fin (exp (- 0.5 * (ln (fs ! i / fs ! j) / L) ^ 2))
            \<and> frequency_decorr_model (map Fin fs) (Fin L) ! i ! j =
                frequency_decorr_model (map Fin fs) (Fin L) ! j ! i))"
proof (intro conjI allI impI)
  show "length (frequency_decorr_model (map Fin fs) (Fin L)) = length fs"
    by (simp add: frequency_decorr_model_def log_dep_def)
next
  fix i assume i: "i < length fs"
  show "length (frequency_decorr_model (map Fin fs) (Fin L) ! i) = length fs"
    using i by (simp add: frequency_decorr_model_def log_dep_def)
  have "0 < fs ! i" using assms(1) i by (rule positive_freqs_nth)
  then show "frequency_decorr_model (map Fin fs) (Fin L) ! i ! i = Fin 1"
    using decorr_entry_fin [OF assms(1) i i assms(2)] by simp
next
  fix i j assume i: "i < length fs" and j: "j < length fs"
  show "frequency_decorr_model (map Fin fs) (Fin L) ! i ! j =
          Fin (exp (- 0.5 * (ln (fs ! i / fs ! j) / L) ^ 2))"
    using assms(1) i j assms(2) by (rule decorr_entry_fin)
  have pi: "0 < fs ! i" and pj: "0 < fs ! j"
    using assms(1) i j positive_freqs_nth by blast+
  have "ln (fs ! i / fs ! j) = - ln (fs ! j / fs ! i)"
    using pi pj by (simp add: ln_div)
  then have "(ln (fs ! i / fs ! j) / L) ^ 2 = (ln (fs ! j / fs ! i) / L) ^ 2"
    by (simp add: power2_eq_square)
  then show "frequency_decorr_model (map Fin fs) (Fin L) ! i ! j =
          frequency_decorr_model (map Fin fs) (Fin L) ! j ! i"
    using decorr_entry_fin [OF assms(1) i j assms(2)]
          decorr_entry_fin [OF assms(1) j i assms(2)] by simp
qed

theorem frequency_decorr_model_entries_witness:
  "positive_freqs [100, 353] \<and> (0::real) < 2
   \<and> frequency_decorr_model (map Fin [100, 353]) (Fin 2) ! 0 ! 0 = Fin 1
   \<and> frequency_decorr_model (map Fin [100, 353]) (Fin 2) ! 0 ! 1 =
       Fin (exp (- 0.5 * (ln (100 / 353) / 2) ^ 2))
   \<and> frequency_decorr_model (map Fin [100, 353]) (Fin 2) ! 0 ! 1 =
       frequency_decorr_model (map Fin [100, 353]) (Fin 2) ! 1 ! 0"
proof -
  have p: "positive_freqs [100, 353]" by (simp add: positive_freqs_def)
  have l: "(0::real) < 2" by simp
  have i0: "(0::nat) < length [100, 353 :: real]"
    and i1: "(1::nat) < length [100, 353 :: real]" by simp_all
  have G: "\<forall>i < length [100, 353 :: real].
          length (frequency_decorr_model (map Fin [100, 353]) (Fin 2) ! i) =
            length [100, 353 :: real]
        \<and> frequency_decorr_model (map Fin [100, 353]) (Fin 2) ! i ! i = Fin 1
        \<and> (\<forall>j < length [100, 353 :: real].
              frequency_decorr_model (map Fin [100, 353]) (Fin 2) ! i ! j =
                Fin (exp (- 0.5 * (ln ([100, 353] ! i / [100, 353] ! j) / 2) ^ 2))
            \<and> frequency_decorr_model (map Fin [100, 353]) (Fin 2) ! i ! j =
                frequency_decorr_model (map Fin [100, 353]) (Fin 2) ! j ! i)"
    using frequency_decorr_model_entries [OF p l] by (rule conjunct2)
  have a: "frequency_decorr_model (map Fin [100, 353]) (Fin 2) ! 0 ! 0 = Fin 1"
    using G i0 by blast
  have "frequency_decorr_model (map Fin [100, 353]) (Fin 2) ! 0 ! 1 =
          Fin (exp (- 0.5 * (ln ([100, 353] ! 0 / [100, 353] ! 1) / 2) ^ 2))"
    using G i0 i1 by blast
  then have b: "frequency_decorr_model (map Fin [100, 353]) (Fin 2) ! 0 ! 1 =
             Fin (exp (- 0.5 * (ln (100 / 353) / 2) ^ 2))"
    by simp
  have c: "frequency_decorr_model (map Fin [100, 353]) (Fin 2) ! 0 ! 1 =
             frequency_decorr_model (map Fin [100, 353]) (Fin 2) ! 1 ! 0"
    using G i0 i1 by blast
  from p l a b c show ?thesis by blast
qed

text \<open>
  C5 (as stated in the specification): with correlation length 0 the model would return 1
  on the diagonal and 0 elsewhere. The function has no such guard: the diagonal entry is
  \<open>exp (- 0.5 * (0 / 0)\<^sup>2)\<close>, which is NaN.
\<close>

theorem frequency_decorr_model_zero_length_counterexample:
  "frequency_decorr_model [Fin 100, Fin 353] (Fin 0) = [[NaN, Fin 0], [Fin 0, NaN]]
   \<and> frequency_decorr_model [Fin 100, Fin 353] (Fin 0) ! 0 ! 0 \<noteq> Fin 1"
  by (simp add: frequency_decorr_model_def log_dep_def)

text \<open>
  C5 (amended). With correlation length 0 and positive frequencies, the entry for two
  different frequencies is 0 and the entry for two equal frequencies, so every diagonal
  entry, is NaN.
\<close>

theorem frequency_decorr_model_zero_length:
  assumes "positive_freqs fs" and "i < length fs" and "j < length fs"
  shows "frequency_decorr_model (map Fin fs) (Fin 0) ! i ! j =
           (if fs ! i = fs ! j then NaN else Fin 0)
       \<and> frequency_decorr_model (map Fin fs) (Fin 0) ! i ! i = NaN"
proof -
  have pi: "0 < fs ! i" and pj: "0 < fs ! j"
    using assms positive_freqs_nth by blast+
  then have q: "0 < fs ! i / fs ! j" by simp
  have z: "ln (fs ! i / fs ! j) = 0 \<longleftrightarrow> fs ! i = fs ! j"
    using q pi pj by (auto simp: ln_eq_zero_iff)
  have "np_exp (Fin (- 0.5) * np_square (Fin (ln (fs ! i / fs ! j)) / Fin 0)) =
          (if fs ! i = fs ! j then NaN else Fin 0)"
    using z by (cases "0 < ln (fs ! i / fs ! j)") auto
  moreover have "np_exp (Fin (- 0.5) * np_square (Fin (ln (fs ! i / fs ! i)) / Fin 0)) = NaN"
    using pi by simp
  ultimately show ?thesis
    using assms pi pj q by (simp add: decorr_entry)
qed

theorem frequency_decorr_model_zero_length_witness:
  "positive_freqs [100, 353] \<and> (0::nat) < length [100, 353 :: real]
   \<and> (1::nat) < length [100, 353 :: real]
   \<and> frequency_decorr_model (map Fin [100, 353]) (Fin 0) ! 0 ! 1 = Fin 0
   \<and> frequency_decorr_model (map Fin [100, 353]) (Fin 0) ! 0 ! 0 = NaN"
proof -
  have p: "positive_freqs [100, 353]" by (simp add: positive_freqs_def)
  show ?thesis
    using p frequency_decorr_model_zero_length [OF p, of 0 1] by simp
qed

subsection \<open>Identity at the anchor frequency\<close>

lemma entry_Inr [simp]: "entry (Inr a) idx = Inr (elem a idx)"
  by (simp add: entry_def)

lemma result_shape_Inr [simp]: "result_shape (Inr a) = Inr (shape a)"
  by (simp add: result_shape_def)

lemma spdust_scaling_shape0:
  assumes "valid_emissivity em" "shape fpk = []" "\<not> fl_eq freq (Fin 0)"
    "\<not> fl_eq (elem fpk []) (Fin 0)"
    "\<not> fl_eq (interp1 (fst em) (snd em) (fr / elem fpk [])) (Fin 0)"
  shows "\<exists>r. compute_spdust_scaling_numba freq fr fpk em = Inr r
           \<and> shape r = []
           \<and> elem r [] = spdust_scaling freq fr (elem fpk []) em"
  using assms
  by (simp add: compute_spdust_scaling_numba_def nb_truediv_scalars nb_truediv_def
      nd_binop_left0 np_interp_valid nd_binop_same_shape spdust_scaling_def)

lemma spdust_scaling_entry:
  assumes "valid_emissivity em" "\<not> fl_eq freq (Fin 0)"
    and "shape fpk = [] \<Longrightarrow> \<not> fl_eq (elem fpk []) (Fin 0)
          \<and> \<not> fl_eq (interp1 (fst em) (snd em) (fr / elem fpk [])) (Fin 0)"
  shows "\<exists>r. compute_spdust_scaling_numba freq fr fpk em = Inr r
           \<and> shape r = shape fpk
           \<and> (\<forall>idx. valid_index (shape fpk) idx \<longrightarrow>
                 elem r idx = spdust_scaling freq fr (elem fpk idx) em)"
proof (cases "shape fpk = []")
  case True
  with spdust_scaling_shape0 [OF assms(1) True assms(2)] assms(3) show ?thesis
    by auto
next
  case False
  with spdust_scaling_array [OF assms(1) False assms(2)] show ?thesis by simp
qed

text \<open>
  C7 (amended). Identity at the anchor frequency. For a positive frequency \<open>f\<close>, any
  spectral index and a positive temperature, \<open>mbb_sed(f, f, index, T)\<close> is exactly 1 if
  \<open>blackbody_nu(f, T)\<close> is finite and not zero, and NaN otherwise. For a positive reference
  frequency and a positive peak-frequency ratio, the spinning-dust scaling at
  \<open>freq = freq_ref_I\<close> is exactly 1 at every pixel where the interpolated emissivity at
  \<open>freq_ref_I / freq_peak\<close> is finite and not zero.
\<close>

theorem anchor_identity:
  assumes "0 < f" and "0 < T"
    and "valid_emissivity em" and "0 < fr"
    and "valid_index (shape fpk) idx"
    and "elem fpk idx = Fin pk" and "0 < pk"
    and "interp1 (fst em) (snd em) (Fin (fr / pk)) = Fin e" and "e \<noteq> 0"
  shows "(\<exists>b. blackbody_nu cs (nd_scalar (Fin f)) (nd_scalar (Fin T)) = Inr (nd_scalar b)
            \<and> mbb_sed cs (nd_scalar (Fin f)) (nd_scalar (Fin f)) (nd_scalar index)
                  (nd_scalar (Fin T))
                = Inr (nd_scalar (if is_fin b \<and> b \<noteq> Fin 0 then Fin 1 else NaN)))
       \<and> result_shape (compute_spdust_scaling_numba (Fin fr) (Fin fr)
             fpk em) = Inr (shape fpk)
       \<and> entry (compute_spdust_scaling_numba (Fin fr) (Fin fr)
             fpk em) idx = Inr (Fin 1)"
proof -
  have a: "\<not> fl_eq (Fin fr) (Fin 0)" using assms(4) by simp
  have b: "shape fpk = [] \<Longrightarrow> \<not> fl_eq (elem fpk []) (Fin 0)
          \<and> \<not> fl_eq (interp1 (fst em) (snd em) (Fin fr / elem fpk [])) (Fin 0)"
    using assms(5-9) by auto
  obtain r where r: "compute_spdust_scaling_numba (Fin fr) (Fin fr)
        fpk em = Inr r" "shape r = shape fpk"
      "elem r idx = spdust_scaling (Fin fr) (Fin fr) (elem fpk idx) em"
    using spdust_scaling_entry [OF assms(3) a b] assms(5) by blast
  have "spdust_scaling (Fin fr) (Fin fr) (Fin pk) em = Fin 1"
    using assms(4,7,8,9) by (simp add: spdust_scaling_def)
  with r assms(6) have sp: "result_shape (compute_spdust_scaling_numba (Fin fr) (Fin fr)
             fpk em) = Inr (shape fpk)"
    "entry (compute_spdust_scaling_numba (Fin fr) (Fin fr) fpk em) idx = Inr (Fin 1)"
    by simp_all
  have t: "\<not> fl_less (Fin T) (Fin 0)" using assms(2) by simp
  have "blackbody_nu cs (nd_scalar (Fin f)) (nd_scalar (Fin T))
          = Inr (nd_scalar (bnu cs (Fin f) (Fin T)))
      \<and> mbb_sed cs (nd_scalar (Fin f)) (nd_scalar (Fin f)) (nd_scalar index)
                  (nd_scalar (Fin T))
                = Inr (nd_scalar (if is_fin (bnu cs (Fin f) (Fin T))
                                     \<and> bnu cs (Fin f) (Fin T) \<noteq> Fin 0 then Fin 1 else NaN))"
    using blackbody_nu_bnu [OF t] mbb_sed_anchor [OF assms(1,2)] by simp
  then have "\<exists>b. blackbody_nu cs (nd_scalar (Fin f)) (nd_scalar (Fin T)) = Inr (nd_scalar b)
            \<and> mbb_sed cs (nd_scalar (Fin f)) (nd_scalar (Fin f)) (nd_scalar index)
                  (nd_scalar (Fin T))
                = Inr (nd_scalar (if is_fin b \<and> b \<noteq> Fin 0 then Fin 1 else NaN))"
    by (rule exI)
  with sp show ?thesis by simp
qed

text \<open>
  C7 (as stated in the specification) fails for both scalings. \<open>blackbody_nu\<close> is 0 where
  \<^verbatim>\<open>np.expm1\<close> overflows, at 353 GHz and 0.02 K (\<open>h \<nu> / (k T)\<close> is about 847), and
  \<open>mbb_sed\<close> is then \<open>0 / 0\<close>, NaN. The spinning-dust scaling divides the interpolated
  emissivity by itself: where the emissivity curve is 0 at the ratio point it is NaN for a
  map of peak frequencies and a ZeroDivisionError for a scalar peak frequency.
\<close>

theorem anchor_identity_counterexample:
  "mbb_sed si_constants (nd_scalar (Fin 353)) (nd_scalar (Fin 353)) (nd_scalar (Fin (3 / 2)))
      (nd_scalar (Fin (1 / 50))) = Inr (nd_scalar NaN)
   \<and> entry (compute_spdust_scaling_numba (Fin 30) (Fin 30) (nd_of_list [Fin 30])
            ([Fin (1/2), Fin 1, Fin 2], [Fin 0, Fin 0, Fin 1])) [0] = Inr NaN
   \<and> compute_spdust_scaling_numba (Fin 30) (Fin 30) (nd_scalar (Fin 30))
            ([Fin (1/2), Fin 1, Fin 2], [Fin 0, Fin 0, Fin 1]) = Inl ZeroDivisionError"
proof -
  have "mbb_sed si_constants (nd_scalar (Fin 353)) (nd_scalar (Fin 353))
      (nd_scalar (Fin (3 / 2))) (nd_scalar (Fin (1 / 50))) = Inr (nd_scalar NaN)"
    using mbb_sed_anchor [of 353 "1 / 50" si_constants "Fin (3 / 2)"]
    by (simp add: si_overflow_353)
  moreover have "entry (compute_spdust_scaling_numba (Fin 30) (Fin 30) (nd_of_list [Fin 30])
            ([Fin (1/2), Fin 1, Fin 2], [Fin 0, Fin 0, Fin 1])) [0] = Inr NaN
   \<and> compute_spdust_scaling_numba (Fin 30) (Fin 30) (nd_scalar (Fin 30))
            ([Fin (1/2), Fin 1, Fin 2], [Fin 0, Fin 0, Fin 1]) = Inl ZeroDivisionError"
    by (simp add: compute_spdust_scaling_numba_def nb_truediv_def nd_of_list_def
        nd_binop_left0 np_interp_def nd_binop_same_shape interp1_def bidx_def)
  ultimately show ?thesis by simp
qed

theorem anchor_identity_witness:
  "valid_emissivity ([Fin (1/2), Fin 1, Fin 2], [Fin 1, Fin 2, Fin 1])
   \<and> valid_index (shape (nd_of_list [Fin 30])) [0]
   \<and> interp1 [Fin (1/2), Fin 1, Fin 2] [Fin 1, Fin 2, Fin 1] (Fin (30 / 30)) = Fin 2
   \<and> blackbody_nu si_constants (nd_scalar (Fin 353)) (nd_scalar (Fin 20))
        = Inr (nd_scalar (Fin (planck si_constants 353 20)))
   \<and> 0 < planck si_constants 353 20
   \<and> mbb_sed si_constants (nd_scalar (Fin 353)) (nd_scalar (Fin 353)) (nd_scalar (Fin (3/2)))
        (nd_scalar (Fin 20)) = Inr (nd_scalar (Fin 1))
   \<and> entry (compute_spdust_scaling_numba (Fin 30) (Fin 30) (nd_of_list [Fin 30])
        ([Fin (1/2), Fin 1, Fin 2], [Fin 1, Fin 2, Fin 1])) [0] = Inr (Fin 1)"
proof -
  let ?em = "([Fin (1/2), Fin 1, Fin 2], [Fin 1, Fin 2, Fin 1])"
  have e: "valid_emissivity ?em" by (simp add: valid_emissivity_def)
  have v: "valid_index (shape (nd_of_list [Fin 30])) [0]" by (simp add: nd_of_list_def)
  have p: "elem (nd_of_list [Fin 30]) [0] = Fin 30" by (simp add: nd_of_list_def)
  have i: "interp1 (fst ?em) (snd ?em) (Fin (30 / 30)) = Fin 2"
    by (simp add: interp1_def)
  have n: "(0::real) < 353" "(0::real) < 20" "(0::real) < 30" "(2::real) \<noteq> 0" by simp_all
  have bb: "blackbody_nu si_constants (nd_scalar (Fin 353)) (nd_scalar (Fin 20))
        = Inr (nd_scalar (Fin (planck si_constants 353 20)))"
    using si_valid n(1,2) si_range_353_20 by (rule blackbody_nu_scalar)
  have pp: "0 < planck si_constants 353 20"
    using si_valid n(1,2) by (rule planck_pos)
  from anchor_identity [OF n(1,2) e n(3) v p n(3) i n(4), of si_constants "Fin (3/2)"]
  obtain b where b: "blackbody_nu si_constants (nd_scalar (Fin 353)) (nd_scalar (Fin 20))
        = Inr (nd_scalar b)"
    "mbb_sed si_constants (nd_scalar (Fin 353)) (nd_scalar (Fin 353)) (nd_scalar (Fin (3/2)))
        (nd_scalar (Fin 20)) = Inr (nd_scalar (if is_fin b \<and> b \<noteq> Fin 0 then Fin 1 else NaN))"
    and sp: "entry (compute_spdust_scaling_numba (Fin 30) (Fin 30) (nd_of_list [Fin 30])
        ?em) [0] = Inr (Fin 1)"
    by auto
  from b(1) bb have "b = Fin (planck si_constants 353 20)" by simp
  with b(2) pp have m: "mbb_sed si_constants (nd_scalar (Fin 353)) (nd_scalar (Fin 353))
        (nd_scalar (Fin (3/2))) (nd_scalar (Fin 20)) = Inr (nd_scalar (Fin 1))"
    by simp
  from e v i bb pp m sp show ?thesis by simp
qed

subsection \<open>Spinning-dust emission\<close>

lemma fin_minus [simp]: "Fin a - Fin b = Fin (a - b)"
  by (simp add: minus_npfloat_def)

lemma view_At2 [simp]:
  "i < n \<Longrightarrow> p < m \<Longrightarrow> view_shape [At i, At p] [n, m, npix] = Inr [npix]"
  by simp

lemma strip_ones_same [simp]: "strip_ones (length sh) sh = sh"
  by (simp add: strip_ones_def)

lemma nd_setitem_row:
  assumes "shape out = [n, m, npix]" "i < n" "p < m" "shape v = [npix]"
  shows "\<exists>r. nd_setitem out [At i, At p] v = Inr r \<and> shape r = shape out
          \<and> (\<forall>j q x. x < npix \<longrightarrow>
                elem r [j, q, x] = (if j = i \<and> q = p then elem v [x] else elem out [j, q, x]))"
proof -
  have "strip_ones (Suc 0) [npix] = [npix]" by (simp add: strip_ones_def)
  then show ?thesis using assms
    by (auto simp: nd_setitem_def)
qed

lemma spdust_loop_result:
  assumes "shape out = [n, 1, npix]" "i + length fs = n" "shape iref = [npix]"
    "shape fpk = [npix]" "valid_emissivity em" "\<forall>f \<in> set fs. \<not> fl_eq f (Fin 0)"
  shows "\<exists>r. spdust_loop i fs iref fr fpk em out = Inr r \<and> shape r = [n, 1, npix]
          \<and> (\<forall>j x. x < npix \<longrightarrow>
                elem r [j, 0, x] =
                  (if i \<le> j \<and> j < n
                   then elem iref [x] * spdust_scaling (fs ! (j - i)) fr (elem fpk [x]) em
                   else elem out [j, 0, x]))"
  using assms
proof (induction fs arbitrary: i out)
  case Nil
  then show ?case by auto
next
  case (Cons f fs)
  have nz: "\<not> fl_eq f (Fin 0)" using Cons.prems(6) by simp
  have ne: "shape fpk \<noteq> []" using Cons.prems(4) by simp
  obtain sc where sc: "compute_spdust_scaling_numba f fr fpk em = Inr sc"
     "shape sc = [npix]"
     "\<And>x. x < npix \<Longrightarrow> elem sc [x] = spdust_scaling f fr (elem fpk [x]) em"
    using spdust_scaling_array [OF Cons.prems(5) ne nz, of fr] Cons.prems(4) by auto
  define v where "v = \<lparr>shape = [npix],
          elem = (\<lambda>idx. elem iref (bidx [npix] idx) * elem sc (bidx [npix] idx))\<rparr>"
  have v: "nd_binop (*) iref sc = Inr v"
    using sc(2) Cons.prems(3) by (simp add: nd_binop_same_shape v_def)
  have vx: "\<And>x. x < npix \<Longrightarrow> elem v [x] = elem iref [x] * spdust_scaling f fr (elem fpk [x]) em"
    using sc(3) by (simp add: v_def)
  have i: "i < n" using Cons.prems(2) by simp
  obtain o1 where o1: "nd_setitem out [At i, At 0] v = Inr o1" "shape o1 = [n, 1, npix]"
     "\<And>j q x. x < npix \<Longrightarrow>
         elem o1 [j, q, x] = (if j = i \<and> q = 0 then elem v [x] else elem out [j, q, x])"
    using nd_setitem_row [OF Cons.prems(1) i, of 0 v] Cons.prems(1) by (auto simp: v_def)
  have "\<exists>r. spdust_loop (Suc i) fs iref fr fpk em o1 = Inr r \<and> shape r = [n, 1, npix]
          \<and> (\<forall>j x. x < npix \<longrightarrow>
                elem r [j, 0, x] =
                  (if Suc i \<le> j \<and> j < n
                   then elem iref [x] * spdust_scaling (fs ! (j - Suc i)) fr (elem fpk [x]) em
                   else elem o1 [j, 0, x]))"
    using Cons.prems by (intro Cons.IH o1(2)) auto
  then obtain r where r: "spdust_loop (Suc i) fs iref fr fpk em o1 = Inr r"
      "shape r = [n, 1, npix]"
      "\<And>j x. x < npix \<Longrightarrow> elem r [j, 0, x] =
                  (if Suc i \<le> j \<and> j < n
                   then elem iref [x] * spdust_scaling (fs ! (j - Suc i)) fr (elem fpk [x]) em
                   else elem o1 [j, 0, x])"
    by blast
  have "spdust_loop i (f # fs) iref fr fpk em out = Inr r"
    using sc(1) v o1(1) r(1) by simp
  moreover have "\<forall>j x. x < npix \<longrightarrow>
                elem r [j, 0, x] =
                  (if i \<le> j \<and> j < n
                   then elem iref [x] * spdust_scaling ((f # fs) ! (j - i)) fr (elem fpk [x]) em
                   else elem out [j, 0, x])"
  proof (intro allI impI)
    fix j x assume x: "x < npix"
    show "elem r [j, 0, x] =
                  (if i \<le> j \<and> j < n
                   then elem iref [x] * spdust_scaling ((f # fs) ! (j - i)) fr (elem fpk [x]) em
                   else elem out [j, 0, x])"
    proof (cases "j = i")
      case True
      then show ?thesis using r(3) [OF x, of j] o1(3) [OF x, of j 0] vx [OF x] i by simp
    next
      case False
      then show ?thesis using r(3) [OF x, of j] o1(3) [OF x, of j 0]
        by (auto simp: Suc_diff_Suc nth_Cons')
    qed
  qed
  ultimately show ?case using r(2) by blast
qed


lemma nd_to_list_1d:
  "shape a = [n] \<Longrightarrow> length (nd_to_list a) = n"
  "shape a = [n] \<Longrightarrow> i < n \<Longrightarrow> nd_to_list a ! i = elem a [i]"
  by (simp_all add: nd_to_list_def)

lemma fl_pos_nonzero: "fl_less (Fin 0) f \<Longrightarrow> \<not> fl_eq f (Fin 0)"
  by (cases f) auto

lemma check_freq_input_ok:
  assumes "check_freq_input freqs = Inr fs"
  shows "\<exists>n. shape fs = [n] \<and> 0 < n \<and> (\<forall>f \<in> set (nd_to_list fs). fl_less (Fin 0) f)"
proof (cases "shape freqs")
  case Nil
  with assms have "fl_less (Fin 0) (elem freqs [])"
      "fs = \<lparr>shape = [1], elem = (\<lambda>idx. elem freqs [])\<rparr>"
    by (auto simp: check_freq_input_def split: if_splits)
  then show ?thesis by (simp add: nd_to_list_def)
next
  case (Cons n rest)
  with assms have "rest = []"
    by (cases rest) (auto simp: check_freq_input_def split: if_splits)
  with Cons assms show ?thesis
    by (auto simp: check_freq_input_def list_all_iff split: if_splits)
qed

lemma SpDust_init_ok:
  assumes "shape peak = [npix]"
  shows "\<exists>self. SpDust_init map_I fr em peak ref_peak = Inr self
           \<and> I_ref self = map_I \<and> freq_ref_I self = fr \<and> emissivity self = em
           \<and> shape (freq_peak self) = [npix]
           \<and> (\<forall>x < npix. elem (freq_peak self) [x] = elem peak [x] / ref_peak)"
  using assms by (simp add: SpDust_init_def nd_binop_right0)

text \<open>
  C8. For a frequency input that \<open>check_freq_input\<close> accepts, a template and a
  peak-frequency map of \<open>npix\<close> pixels and a non-empty emissivity table,
  \<open>SpDust.get_emission\<close> returns an array of shape \<open>(nfreq, 1, npix)\<close> whose entry at
  \<open>(i, 0, x)\<close> is \<open>I_ref[x]\<close> times the scaling
  \<open>(freq_ref_I / f)\<^sup>2 * interp (f / freqPeak[x]) / interp (freq_ref_I / freqPeak[x])\<close>
  at \<open>f = freqs[i]\<close>, where \<open>freqPeak[x]\<close> is the peak frequency divided, at construction,
  by the reference peak frequency.
\<close>

theorem SpDust_get_emission_entries:
  assumes "SpDust_init map_I fr em peak ref_peak = Inr self"
    and "shape map_I = [npix]" and "shape peak = [npix]" and "valid_emissivity em"
    and "check_freq_input freqs = Inr fs" and "shape fs = [nfreq]"
  shows "result_shape (SpDust_get_emission uninit self freqs) = Inr [nfreq, 1, npix]
     \<and> (\<forall>i < nfreq. \<forall>x < npix.
           entry (SpDust_get_emission uninit self freqs) [i, 0, x] =
             Inr (elem map_I [x]
                  * spdust_scaling (elem fs [i]) fr (elem peak [x] / ref_peak) em))"
proof -
  from SpDust_init_ok [OF assms(3), of map_I fr em ref_peak] assms(1)
  have self: "I_ref self = map_I" "freq_ref_I self = fr" "emissivity self = em"
    "shape (freq_peak self) = [npix]"
    "\<And>x. x < npix \<Longrightarrow> elem (freq_peak self) [x] = elem peak [x] / ref_peak"
    by auto
  from check_freq_input_ok [OF assms(5)] assms(6)
  have pos: "\<forall>f \<in> set (nd_to_list fs). \<not> fl_eq f (Fin 0)"
    by (auto dest: fl_pos_nonzero)
  have len: "0 + length (nd_to_list fs) = nfreq"
    using assms(6) by (simp add: nd_to_list_1d)
  let ?out = "\<lparr>shape = [length (nd_to_list fs), 1, npix], elem = uninit\<rparr>"
  have so: "shape ?out = [nfreq, 1, npix]" using len by simp
  from spdust_loop_result [OF so len assms(2) self(4) assms(4) pos, of fr]
  obtain r where r: "spdust_loop 0 (nd_to_list fs) map_I fr (freq_peak self) em ?out = Inr r"
     "shape r = [nfreq, 1, npix]"
     "\<And>j x. x < npix \<Longrightarrow> elem r [j, 0, x] =
         (if 0 \<le> j \<and> j < nfreq
          then elem map_I [x]
               * spdust_scaling (nd_to_list fs ! (j - 0)) fr (elem (freq_peak self) [x]) em
          else elem ?out [j, 0, x])"
    by blast
  have g: "SpDust_get_emission uninit self freqs = Inr r"
    using assms(2,5) self(1-3) r(1)
    by (simp add: SpDust_get_emission_def compute_spdust_emission_numba_def nd_len_def)
  show ?thesis
    using g r(2) r(3) self(5) assms(6) by (simp add: nd_to_list_1d)
qed


theorem SpDust_get_emission_entries_witness:
  "SpDust_init (nd_of_list [Fin 5, Fin 7]) (Fin 30)
       ([Fin 10, Fin 30, Fin 90], [Fin 1, Fin 3, Fin 1])
       (nd_of_list [Fin 20, Fin 40]) (Fin 20) =
     Inr (projr (SpDust_init (nd_of_list [Fin 5, Fin 7]) (Fin 30)
       ([Fin 10, Fin 30, Fin 90], [Fin 1, Fin 3, Fin 1])
       (nd_of_list [Fin 20, Fin 40]) (Fin 20)))
   \<and> valid_emissivity ([Fin 10, Fin 30, Fin 90], [Fin 1, Fin 3, Fin 1])
   \<and> check_freq_input (nd_of_list [Fin 30, Fin 60]) = Inr (nd_of_list [Fin 30, Fin 60])
   \<and> result_shape (SpDust_get_emission (\<lambda>idx. NaN)
         (projr (SpDust_init (nd_of_list [Fin 5, Fin 7]) (Fin 30)
            ([Fin 10, Fin 30, Fin 90], [Fin 1, Fin 3, Fin 1])
            (nd_of_list [Fin 20, Fin 40]) (Fin 20)))
         (nd_of_list [Fin 30, Fin 60])) = Inr [2, 1, 2]
   \<and> entry (SpDust_get_emission (\<lambda>idx. NaN)
         (projr (SpDust_init (nd_of_list [Fin 5, Fin 7]) (Fin 30)
            ([Fin 10, Fin 30, Fin 90], [Fin 1, Fin 3, Fin 1])
            (nd_of_list [Fin 20, Fin 40]) (Fin 20)))
         (nd_of_list [Fin 30, Fin 60])) [1, 0, 0] = Inr (Fin (5 / 6))"
proof -
  let ?M = "nd_of_list [Fin 5, Fin 7]"
  let ?em = "([Fin 10, Fin 30, Fin 90], [Fin 1, Fin 3, Fin 1])"
  let ?P = "nd_of_list [Fin 20, Fin 40]"
  let ?F = "nd_of_list [Fin 30, Fin 60]"
  let ?self = "projr (SpDust_init ?M (Fin 30) ?em ?P (Fin 20))"
  have i: "SpDust_init ?M (Fin 30) ?em ?P (Fin 20) = Inr ?self"
    by (simp add: SpDust_init_def nd_binop_right0)
  have m: "shape ?M = [2]" and p: "shape ?P = [2]" and f: "shape ?F = [2]"
    by (simp_all add: nd_of_list_def)
  have e: "valid_emissivity ?em" by (simp add: valid_emissivity_def)
  have c: "check_freq_input ?F = Inr ?F"
    by (simp add: check_freq_input_def nd_of_list_def nd_to_list_def upt_rec)
  note T = SpDust_get_emission_entries [OF i m p e c f, of "\<lambda>idx. NaN"]
  have s: "result_shape (SpDust_get_emission (\<lambda>idx. NaN) ?self ?F) = Inr [2, 1, 2]"
    using T by blast
  have "entry (SpDust_get_emission (\<lambda>idx. NaN) ?self ?F) [1, 0, 0] =
          Inr (elem ?M [0] * spdust_scaling (elem ?F [1]) (Fin 30) (elem ?P [0] / Fin 20) ?em)"
    using T by simp
  moreover have "elem ?M [0] * spdust_scaling (elem ?F [1]) (Fin 30) (elem ?P [0] / Fin 20) ?em
      = Fin (5 / 6)"
    by (simp add: nd_of_list_def spdust_scaling_def interp1_def power2_eq_square)
  ultimately show ?thesis using i e c s by simp
qed

subsection \<open>Polarized spinning-dust emission\<close>

lemma pix_simps: "shape a = [] \<Longrightarrow> pix a x = elem a []"
  "shape a = [npix] \<Longrightarrow> x < npix \<Longrightarrow> pix a x = elem a [x]"
  by (simp_all add: pix_def)

lemma bidx_row [simp]: "x < npix \<Longrightarrow> bidx [npix] [q, x] = [x]"
  by (auto simp: bidx_def)

lemma broadcast_rows [simp]: "broadcast_shape [m, npix] [npix] = Inr [m, npix]"
  by (simp add: broadcast_shape_def pad_shape_def)

lemma nd_binop_pix:
  assumes "shape a = [npix]" "shape b = [] \<or> shape b = [npix]"
  shows "\<exists>r. nd_binop f a b = Inr r \<and> shape r = [npix]
          \<and> (\<forall>x < npix. elem r [x] = f (elem a [x]) (pix b x))"
  using assms by (auto simp: nd_binop_right0 nd_binop_same_shape pix_simps)

lemma nd_setitem_rows:
  assumes "shape out = [n, m, npix]" "i < n" "shape v = [m, npix]"
  shows "\<exists>r. nd_setitem out [At i, Whole] v = Inr r \<and> shape r = shape out
          \<and> (\<forall>j q x. q < m \<longrightarrow> x < npix \<longrightarrow>
                elem r [j, q, x] = (if j = i then elem v [q, x] else elem out [j, q, x]))"
proof -
  have "strip_ones (Suc (Suc 0)) [m, npix] = [m, npix]" by (simp add: strip_ones_def)
  then show ?thesis using assms
    by (auto simp: nd_setitem_def)
qed

lemma nd_imul_rows:
  assumes "shape out = [n, m, npix]" "i < n" "shape v = [npix]"
  shows "\<exists>r. nd_imul out [At i, Whole] v = Inr r \<and> shape r = shape out
          \<and> (\<forall>j q x. q < m \<longrightarrow> x < npix \<longrightarrow>
                elem r [j, q, x] =
                  (if j = i then elem out [i, q, x] * elem v [x] else elem out [j, q, x]))"
proof -
  define w where "w = \<lparr>shape = [m, npix],
      elem = (\<lambda>idx. elem out (view_index [At i, Whole] (shape out) idx))\<rparr>"
  have w: "nd_getitem out [At i, Whole] = Inr w"
    using assms by (simp add: nd_getitem_def w_def)
  define p where "p = \<lparr>shape = [m, npix],
      elem = (\<lambda>idx. elem w (bidx (shape w) idx) * elem v (bidx (shape v) idx))\<rparr>"
  have p: "nd_binop (*) w v = Inr p"
    using assms by (simp add: nd_binop_def w_def p_def)
  have pe: "\<And>q x. q < m \<Longrightarrow> x < npix \<Longrightarrow> elem p [q, x] = elem out [i, q, x] * elem v [x]"
    using assms by (simp add: p_def w_def)
  have sp: "shape p = [m, npix]" "shape w = [m, npix]" by (simp_all add: p_def w_def)
  from nd_setitem_rows [OF assms(1,2) sp(1)] obtain r where
    r: "nd_setitem out [At i, Whole] p = Inr r" "shape r = shape out"
      "\<And>j q x. q < m \<Longrightarrow> x < npix \<Longrightarrow>
          elem r [j, q, x] = (if j = i then elem p [q, x] else elem out [j, q, x])"
    by blast
  have "nd_imul out [At i, Whole] v = Inr r"
    using w p sp r(1) by (simp add: nd_imul_def)
  then show ?thesis using r(2,3) pe by auto
qed


lemma pol_step:
  assumes "shape out = [n, 3, npix]" "i < n" "shape iref = [npix]"
    "shape fpk = [npix]" "valid_emissivity em" "\<not> fl_eq f (Fin 0)"
    "shape angle = [npix]" "shape pfrac = [] \<or> shape pfrac = [npix]"
  shows "\<exists>o4.
     and_then (nd_setitem out [At i, At 0] iref) (\<lambda>o1.
     and_then (nd_binop (*) iref pfrac) (\<lambda>ip.
     and_then (nd_binop (*) ip (nd_map np_cos angle)) (\<lambda>q.
     and_then (nd_setitem o1 [At i, At 1] q) (\<lambda>o2.
     and_then (nd_binop (*) iref pfrac) (\<lambda>ip'.
     and_then (nd_binop (*) ip' (nd_map np_sin angle)) (\<lambda>u.
     and_then (nd_setitem o2 [At i, At 2] u) (\<lambda>o3.
     and_then (compute_spdust_scaling_numba f fr fpk em) (\<lambda>scaling.
     and_then (nd_imul o3 [At i, Whole] scaling) (\<lambda>o4. k o4))))))))) = k o4
     \<and> shape o4 = [n, 3, npix]
     \<and> (\<forall>j q x. q < 3 \<longrightarrow> x < npix \<longrightarrow>
           elem o4 [j, q, x] =
             (if j = i then pol_base iref pfrac angle q x
                            * spdust_scaling f fr (elem fpk [x]) em
              else elem out [j, q, x]))"
proof -
  obtain o1 where o1: "nd_setitem out [At i, At 0] iref = Inr o1" "shape o1 = [n, 3, npix]"
    "\<And>j q x. x < npix \<Longrightarrow>
       elem o1 [j, q, x] = (if j = i \<and> q = 0 then elem iref [x] else elem out [j, q, x])"
    using nd_setitem_row [OF assms(1,2) _ assms(3), of 0] assms(1) by auto
  obtain ip where ip: "nd_binop (*) iref pfrac = Inr ip" "shape ip = [npix]"
    "\<And>x. x < npix \<Longrightarrow> elem ip [x] = elem iref [x] * pix pfrac x"
    using nd_binop_pix [OF assms(3,8), where f = "(*)"] by auto
  have sa: "shape (nd_map np_cos angle) = [npix]" "shape (nd_map np_sin angle) = [npix]"
    using assms(7) by simp_all
  obtain qv where qv: "nd_binop (*) ip (nd_map np_cos angle) = Inr qv" "shape qv = [npix]"
    "\<And>x. x < npix \<Longrightarrow> elem qv [x] = elem iref [x] * pix pfrac x * np_cos (elem angle [x])"
    using nd_binop_pix [OF ip(2), where b = "nd_map np_cos angle" and f = "(*)"] sa ip(3)
    by (auto simp: pix_simps)
  obtain uv where uv: "nd_binop (*) ip (nd_map np_sin angle) = Inr uv" "shape uv = [npix]"
    "\<And>x. x < npix \<Longrightarrow> elem uv [x] = elem iref [x] * pix pfrac x * np_sin (elem angle [x])"
    using nd_binop_pix [OF ip(2), where b = "nd_map np_sin angle" and f = "(*)"] sa ip(3)
    by (auto simp: pix_simps)
  obtain o2 where o2: "nd_setitem o1 [At i, At 1] qv = Inr o2" "shape o2 = [n, 3, npix]"
    "\<And>j q x. x < npix \<Longrightarrow>
       elem o2 [j, q, x] = (if j = i \<and> q = 1 then elem qv [x] else elem o1 [j, q, x])"
    using nd_setitem_row [OF o1(2) assms(2) _ qv(2), of 1] o1(2) by auto
  obtain o3 where o3: "nd_setitem o2 [At i, At 2] uv = Inr o3" "shape o3 = [n, 3, npix]"
    "\<And>j q x. x < npix \<Longrightarrow>
       elem o3 [j, q, x] = (if j = i \<and> q = 2 then elem uv [x] else elem o2 [j, q, x])"
    using nd_setitem_row [OF o2(2) assms(2) _ uv(2), of 2] o2(2) by auto
  have ne: "shape fpk \<noteq> []" using assms(4) by simp
  obtain sc where sc: "compute_spdust_scaling_numba f fr fpk em = Inr sc"
     "shape sc = [npix]"
     "\<And>x. x < npix \<Longrightarrow> elem sc [x] = spdust_scaling f fr (elem fpk [x]) em"
    using spdust_scaling_array [OF assms(5) ne assms(6), of fr] assms(4) by auto
  obtain o4 where o4: "nd_imul o3 [At i, Whole] sc = Inr o4" "shape o4 = [n, 3, npix]"
    "\<And>j q x. q < 3 \<Longrightarrow> x < npix \<Longrightarrow>
       elem o4 [j, q, x] =
         (if j = i then elem o3 [i, q, x] * elem sc [x] else elem o3 [j, q, x])"
    using nd_imul_rows [OF o3(2) assms(2) sc(2)] o3(2) by auto
  have e: "\<And>j q x. q < 3 \<Longrightarrow> x < npix \<Longrightarrow>
           elem o4 [j, q, x] =
             (if j = i then pol_base iref pfrac angle q x
                            * spdust_scaling f fr (elem fpk [x]) em
              else elem out [j, q, x])"
    using o4(3) o3(3) o2(3) o1(3) qv(3) uv(3) sc(3) by (auto simp: pol_base_def)
  show ?thesis
    using o1(1) ip(1) qv(1) o2(1) uv(1) o3(1) sc(1) o4(1,2) e by auto
qed


lemma spdust_pol_loop_result:
  assumes "shape out = [n, 3, npix]" "i + length fs = n" "shape iref = [npix]"
    "shape fpk = [npix]" "valid_emissivity em" "\<forall>f \<in> set fs. \<not> fl_eq f (Fin 0)"
    "shape angle = [npix]" "shape pfrac = [] \<or> shape pfrac = [npix]"
  shows "\<exists>r. spdust_pol_loop i fs iref fr fpk em angle pfrac out = Inr r
          \<and> shape r = [n, 3, npix]
          \<and> (\<forall>j q x. q < 3 \<longrightarrow> x < npix \<longrightarrow>
                elem r [j, q, x] =
                  (if i \<le> j \<and> j < n
                   then pol_base iref pfrac angle q x
                        * spdust_scaling (fs ! (j - i)) fr (elem fpk [x]) em
                   else elem out [j, q, x]))"
  using assms
proof (induction fs arbitrary: i out)
  case Nil
  then show ?case by auto
next
  case (Cons f fs)
  have nz: "\<not> fl_eq f (Fin 0)" using Cons.prems(6) by simp
  have i: "i < n" using Cons.prems(2) by simp
  from pol_step [OF Cons.prems(1) i Cons.prems(3,4,5) nz Cons.prems(7,8),
      of fr "\<lambda>o4. spdust_pol_loop (Suc i) fs iref fr fpk em angle pfrac o4"]
  obtain o4 where o4:
    "spdust_pol_loop i (f # fs) iref fr fpk em angle pfrac out =
       spdust_pol_loop (Suc i) fs iref fr fpk em angle pfrac o4"
    "shape o4 = [n, 3, npix]"
    "\<And>j q x. q < 3 \<Longrightarrow> x < npix \<Longrightarrow> elem o4 [j, q, x] =
             (if j = i then pol_base iref pfrac angle q x
                            * spdust_scaling f fr (elem fpk [x]) em
              else elem out [j, q, x])"
    by auto
  have "\<exists>r. spdust_pol_loop (Suc i) fs iref fr fpk em angle pfrac o4 = Inr r
          \<and> shape r = [n, 3, npix]
          \<and> (\<forall>j q x. q < 3 \<longrightarrow> x < npix \<longrightarrow>
                elem r [j, q, x] =
                  (if Suc i \<le> j \<and> j < n
                   then pol_base iref pfrac angle q x
                        * spdust_scaling (fs ! (j - Suc i)) fr (elem fpk [x]) em
                   else elem o4 [j, q, x]))"
    using Cons.prems by (intro Cons.IH o4(2)) auto
  then obtain r where r: "spdust_pol_loop (Suc i) fs iref fr fpk em angle pfrac o4 = Inr r"
      "shape r = [n, 3, npix]"
      "\<And>j q x. q < 3 \<Longrightarrow> x < npix \<Longrightarrow> elem r [j, q, x] =
                  (if Suc i \<le> j \<and> j < n
                   then pol_base iref pfrac angle q x
                        * spdust_scaling (fs ! (j - Suc i)) fr (elem fpk [x]) em
                   else elem o4 [j, q, x])"
    by blast
  have "\<forall>j q x. q < 3 \<longrightarrow> x < npix \<longrightarrow>
                elem r [j, q, x] =
                  (if i \<le> j \<and> j < n
                   then pol_base iref pfrac angle q x
                        * spdust_scaling ((f # fs) ! (j - i)) fr (elem fpk [x]) em
                   else elem out [j, q, x])"
  proof (intro allI impI)
    fix j q x assume q: "q < (3::nat)" and x: "x < npix"
    show "elem r [j, q, x] =
                  (if i \<le> j \<and> j < n
                   then pol_base iref pfrac angle q x
                        * spdust_scaling ((f # fs) ! (j - i)) fr (elem fpk [x]) em
                   else elem out [j, q, x])"
    proof (cases "j = i")
      case True
      then show ?thesis using r(3) [OF q x, of j] o4(3) [OF q x, of j] i by simp
    next
      case False
      then show ?thesis using r(3) [OF q x, of j] o4(3) [OF q x, of j]
        by (auto simp: Suc_diff_Suc nth_Cons')
    qed
  qed
  then show ?case using r(1,2) o4(1) by simp
qed

lemma SpDustPol_init_ok:
  assumes "shape peak = [npix]" "shape angle_Q = [npix]" "shape angle_U = [npix]"
  shows "\<exists>self. SpDustPol_init map_I fr em peak ref_peak pfrac angle_Q angle_U = Inr self
           \<and> I_ref self = map_I \<and> freq_ref_I self = fr \<and> emissivity self = em
           \<and> pol_frac self = pfrac
           \<and> shape (freq_peak self) = [npix] \<and> shape (pol_angle self) = [npix]
           \<and> (\<forall>x < npix. elem (freq_peak self) [x] = elem peak [x] / ref_peak)
           \<and> (\<forall>x < npix. elem (pol_angle self) [x] =
                  np_arctan2 (elem angle_U [x]) (elem angle_Q [x]))"
  using assms
  by (simp add: SpDustPol_init_def SpDust_init_def nd_binop_right0 nd_binop_same_shape)

text \<open>
  C9. For a frequency input that \<open>check_freq_input\<close> accepts and maps of \<open>npix\<close> pixels,
  \<open>SpDustPol.get_emission\<close> returns an array of shape \<open>(nfreq, 3, npix)\<close>. With the angle
  \<open>arctan2 (mapU[x], mapQ[x])\<close> fixed at construction and \<open>s\<close> the spinning-dust scaling of
  the intensity model, the I entry is \<open>I_ref[x] * s\<close>, the Q entry
  \<open>I_ref[x] * polFrac * cos (angle[x]) * s\<close> and the U entry
  \<open>I_ref[x] * polFrac * sin (angle[x]) * s\<close>.
\<close>

theorem SpDustPol_get_emission_entries:
  assumes "SpDustPol_init map_I fr em peak ref_peak pfrac angle_Q angle_U = Inr self"
    and "shape map_I = [npix]" and "shape peak = [npix]" and "valid_emissivity em"
    and "shape angle_Q = [npix]" and "shape angle_U = [npix]"
    and "shape pfrac = [] \<or> shape pfrac = [npix]"
    and "check_freq_input freqs = Inr fs" and "shape fs = [nfreq]"
  shows "result_shape (SpDustPol_get_emission uninit self freqs) = Inr [nfreq, 3, npix]
     \<and> (\<forall>i < nfreq. \<forall>x < npix.
           entry (SpDustPol_get_emission uninit self freqs) [i, 0, x] =
             Inr (elem map_I [x]
                  * spdust_scaling (elem fs [i]) fr (elem peak [x] / ref_peak) em)
         \<and> entry (SpDustPol_get_emission uninit self freqs) [i, 1, x] =
             Inr (elem map_I [x] * pix pfrac x
                  * np_cos (np_arctan2 (elem angle_U [x]) (elem angle_Q [x]))
                  * spdust_scaling (elem fs [i]) fr (elem peak [x] / ref_peak) em)
         \<and> entry (SpDustPol_get_emission uninit self freqs) [i, 2, x] =
             Inr (elem map_I [x] * pix pfrac x
                  * np_sin (np_arctan2 (elem angle_U [x]) (elem angle_Q [x]))
                  * spdust_scaling (elem fs [i]) fr (elem peak [x] / ref_peak) em))"
proof -
  from SpDustPol_init_ok [OF assms(3,5,6), of map_I fr em ref_peak pfrac] assms(1)
  have self: "I_ref self = map_I" "freq_ref_I self = fr" "emissivity self = em"
    "pol_frac self = pfrac"
    "shape (freq_peak self) = [npix]" "shape (pol_angle self) = [npix]"
    "\<And>x. x < npix \<Longrightarrow> elem (freq_peak self) [x] = elem peak [x] / ref_peak"
    "\<And>x. x < npix \<Longrightarrow> elem (pol_angle self) [x] =
                  np_arctan2 (elem angle_U [x]) (elem angle_Q [x])"
    by auto
  from check_freq_input_ok [OF assms(8)] assms(9)
  have pos: "\<forall>f \<in> set (nd_to_list fs). \<not> fl_eq f (Fin 0)"
    by (auto dest: fl_pos_nonzero)
  have len: "0 + length (nd_to_list fs) = nfreq"
    using assms(9) by (simp add: nd_to_list_1d)
  let ?out = "\<lparr>shape = [length (nd_to_list fs), 3, npix], elem = uninit\<rparr>"
  have so: "shape ?out = [nfreq, 3, npix]" using len by simp
  from spdust_pol_loop_result [OF so len assms(2) self(5) assms(4) pos self(6) assms(7),
      of fr]
  obtain r where r:
    "spdust_pol_loop 0 (nd_to_list fs) map_I fr (freq_peak self) em (pol_angle self) pfrac
        ?out = Inr r"
     "shape r = [nfreq, 3, npix]"
     "\<And>j q x. q < 3 \<Longrightarrow> x < npix \<Longrightarrow> elem r [j, q, x] =
         (if 0 \<le> j \<and> j < nfreq
          then pol_base map_I pfrac (pol_angle self) q x
               * spdust_scaling (nd_to_list fs ! (j - 0)) fr (elem (freq_peak self) [x]) em
          else elem ?out [j, q, x])"
    by blast
  have g: "SpDustPol_get_emission uninit self freqs = Inr r"
    using assms(2,8) self(1-4) r(1)
    by (simp add: SpDustPol_get_emission_def compute_spdust_emission_pol_numba_def
        nd_len_def)
  show ?thesis
    using g r(2) r(3) self(7,8) assms(9) by (simp add: nd_to_list_1d pol_base_def)
qed


theorem SpDustPol_get_emission_entries_witness:
  "SpDustPol_init (nd_of_list [Fin 5, Fin 7]) (Fin 30)
       ([Fin 10, Fin 30, Fin 90], [Fin 1, Fin 3, Fin 1])
       (nd_of_list [Fin 20, Fin 40]) (Fin 20) (nd_scalar (Fin (1/10)))
       (nd_of_list [Fin 1, Fin 0]) (nd_of_list [Fin 0, Fin 1]) =
     Inr (projr (SpDustPol_init (nd_of_list [Fin 5, Fin 7]) (Fin 30)
       ([Fin 10, Fin 30, Fin 90], [Fin 1, Fin 3, Fin 1])
       (nd_of_list [Fin 20, Fin 40]) (Fin 20) (nd_scalar (Fin (1/10)))
       (nd_of_list [Fin 1, Fin 0]) (nd_of_list [Fin 0, Fin 1])))
   \<and> valid_emissivity ([Fin 10, Fin 30, Fin 90], [Fin 1, Fin 3, Fin 1])
   \<and> check_freq_input (nd_of_list [Fin 30, Fin 60]) = Inr (nd_of_list [Fin 30, Fin 60])
   \<and> result_shape (SpDustPol_get_emission (\<lambda>idx. NaN)
         (projr (SpDustPol_init (nd_of_list [Fin 5, Fin 7]) (Fin 30)
            ([Fin 10, Fin 30, Fin 90], [Fin 1, Fin 3, Fin 1])
            (nd_of_list [Fin 20, Fin 40]) (Fin 20) (nd_scalar (Fin (1/10)))
            (nd_of_list [Fin 1, Fin 0]) (nd_of_list [Fin 0, Fin 1])))
         (nd_of_list [Fin 30, Fin 60])) = Inr [2, 3, 2]
   \<and> entry (SpDustPol_get_emission (\<lambda>idx. NaN)
         (projr (SpDustPol_init (nd_of_list [Fin 5, Fin 7]) (Fin 30)
            ([Fin 10, Fin 30, Fin 90], [Fin 1, Fin 3, Fin 1])
            (nd_of_list [Fin 20, Fin 40]) (Fin 20) (nd_scalar (Fin (1/10)))
            (nd_of_list [Fin 1, Fin 0]) (nd_of_list [Fin 0, Fin 1])))
         (nd_of_list [Fin 30, Fin 60])) [1, 0, 0] = Inr (Fin (5 / 6))
   \<and> entry (SpDustPol_get_emission (\<lambda>idx. NaN)
         (projr (SpDustPol_init (nd_of_list [Fin 5, Fin 7]) (Fin 30)
            ([Fin 10, Fin 30, Fin 90], [Fin 1, Fin 3, Fin 1])
            (nd_of_list [Fin 20, Fin 40]) (Fin 20) (nd_scalar (Fin (1/10)))
            (nd_of_list [Fin 1, Fin 0]) (nd_of_list [Fin 0, Fin 1])))
         (nd_of_list [Fin 30, Fin 60])) [1, 1, 0] = Inr (Fin (1 / 12))
   \<and> entry (SpDustPol_get_emission (\<lambda>idx. NaN)
         (projr (SpDustPol_init (nd_of_list [Fin 5, Fin 7]) (Fin 30)
            ([Fin 10, Fin 30, Fin 90], [Fin 1, Fin 3, Fin 1])
            (nd_of_list [Fin 20, Fin 40]) (Fin 20) (nd_scalar (Fin (1/10)))
            (nd_of_list [Fin 1, Fin 0]) (nd_of_list [Fin 0, Fin 1])))
         (nd_of_list [Fin 30, Fin 60])) [1, 2, 0] = Inr (Fin 0)"
proof -
  let ?M = "nd_of_list [Fin 5, Fin 7]"
  let ?em = "([Fin 10, Fin 30, Fin 90], [Fin 1, Fin 3, Fin 1])"
  let ?P = "nd_of_list [Fin 20, Fin 40]"
  let ?F = "nd_of_list [Fin 30, Fin 60]"
  let ?pf = "nd_scalar (Fin (1/10))"
  let ?Q = "nd_of_list [Fin 1, Fin 0]"
  let ?U = "nd_of_list [Fin 0, Fin 1]"
  let ?self = "projr (SpDustPol_init ?M (Fin 30) ?em ?P (Fin 20) ?pf ?Q ?U)"
  have i: "SpDustPol_init ?M (Fin 30) ?em ?P (Fin 20) ?pf ?Q ?U = Inr ?self"
    by (simp add: SpDustPol_init_def SpDust_init_def nd_binop_right0 nd_binop_same_shape
        nd_of_list_def)
  have m: "shape ?M = [2]" and p: "shape ?P = [2]" and f: "shape ?F = [2]"
    and q: "shape ?Q = [2]" and u: "shape ?U = [2]"
    by (simp_all add: nd_of_list_def)
  have pf: "shape ?pf = [] \<or> shape ?pf = [2]" by simp
  have e: "valid_emissivity ?em" by (simp add: valid_emissivity_def)
  have c: "check_freq_input ?F = Inr ?F"
    by (simp add: check_freq_input_def nd_of_list_def nd_to_list_def upt_rec)
  note T = SpDustPol_get_emission_entries [OF i m p e q u pf c f, of "\<lambda>idx. NaN"]
  have s: "result_shape (SpDustPol_get_emission (\<lambda>idx. NaN) ?self ?F) = Inr [2, 3, 2]"
    using T by blast
  have sv: "spdust_scaling (elem ?F [1]) (Fin 30) (elem ?P [0] / Fin 20) ?em = Fin (1 / 6)"
    by (simp add: nd_of_list_def spdust_scaling_def interp1_def power2_eq_square)
  have a0: "np_arctan2 (elem ?U [0]) (elem ?Q [0]) = Fin 0"
    by (simp add: nd_of_list_def arctan2_def)
  have "entry (SpDustPol_get_emission (\<lambda>idx. NaN) ?self ?F) [1, 0, 0] =
          Inr (elem ?M [0] * spdust_scaling (elem ?F [1]) (Fin 30) (elem ?P [0] / Fin 20) ?em)"
    using T by simp
  then have e0: "entry (SpDustPol_get_emission (\<lambda>idx. NaN) ?self ?F) [1, 0, 0] =
      Inr (Fin (5 / 6))"
    unfolding sv by (simp add: nd_of_list_def)
  have "entry (SpDustPol_get_emission (\<lambda>idx. NaN) ?self ?F) [1, 1, 0] =
          Inr (elem ?M [0] * pix ?pf 0
                  * np_cos (np_arctan2 (elem ?U [0]) (elem ?Q [0]))
                  * spdust_scaling (elem ?F [1]) (Fin 30) (elem ?P [0] / Fin 20) ?em)"
    using T by simp
  then have e1: "entry (SpDustPol_get_emission (\<lambda>idx. NaN) ?self ?F) [1, 1, 0] =
      Inr (Fin (1 / 12))"
    unfolding sv a0 by (simp add: nd_of_list_def pix_def)
  have "entry (SpDustPol_get_emission (\<lambda>idx. NaN) ?self ?F) [1, 2, 0] =
          Inr (elem ?M [0] * pix ?pf 0
                  * np_sin (np_arctan2 (elem ?U [0]) (elem ?Q [0]))
                  * spdust_scaling (elem ?F [1]) (Fin 30) (elem ?P [0] / Fin 20) ?em)"
    using T by simp
  then have e2: "entry (SpDustPol_get_emission (\<lambda>idx. NaN) ?self ?F) [1, 2, 0] =
      Inr (Fin 0)"
    unfolding sv a0 by (simp add: nd_of_list_def pix_def)
  from i e c s e0 e1 e2 show ?thesis by blast
qed

subsection \<open>Safe inversion\<close>

lemma length_fmat [simp]: "length (fmat A) = length A"
  by (simp add: fmat_def)





lemma fmat_dims [simp]:
  "mat_rows (fmat A) = length A"
  "square n A \<Longrightarrow> 0 < n \<Longrightarrow> mat_cols (fmat A) = n"
  by (auto simp: mat_rows_def mat_cols_def fmat_def square_def hd_map)










subsection \<open>The decorrelation matrix\<close>

lemma lift_option_simps [simp]:
  "lift_option None f = None"
  "lift_option (Some (Inl e)) f = Some (Inl e)"
  "lift_option (Some (Inr x)) f = f x"
  by (simp_all add: lift_option_def)



lemma upt_small:
  "[0 ..< Suc 0] = [0]" "[0 ..< Suc (Suc 0)] = [0, Suc 0]" "[0 ..< 2] = [0, 1]"
  "[0 ..< 1] = [0]"
  by (simp_all add: upt_conv_Cons numeral_2_eq_2)



lemma square_nth: "square d a \<Longrightarrow> i < d \<Longrightarrow> length (a ! i) = d"
  by (simp add: square_def)




























subsection \<open>The modified black body models\<close>

lemma indices_valid: "idx \<in> set (indices sh) \<Longrightarrow> valid_index sh idx"
  by (induction sh arbitrary: idx) (auto simp: valid_index_def)

lemma nd_any_False:
  "(\<And>idx. valid_index (shape a) idx \<Longrightarrow> \<not> P (elem a idx)) \<Longrightarrow> \<not> nd_any P a"
  by (auto simp: nd_any_def list_ex_iff dest: indices_valid)

lemma nd_binop_gen:
  "broadcast_shape (shape a) (shape b) = Inr s \<Longrightarrow>
     nd_binop f a b = Inr \<lparr>shape = s,
        elem = (\<lambda>idx. f (elem a (bidx (shape a) idx)) (elem b (bidx (shape b) idx)))\<rparr>"
  by (simp add: nd_binop_def)

lemma blackbody_nu_elem:
  assumes "broadcast_shape (shape a) (shape t) = Inr s"
    and "broadcast_shape (shape a) s = Inr s"
    and "\<And>idx. valid_index (shape t) idx \<Longrightarrow> \<not> fl_less (elem t idx) (Fin 0)"
  shows "\<exists>r. blackbody_nu cs a t = Inr r \<and> shape r = s
     \<and> (\<forall>idx. valid_index s idx \<longrightarrow>
           elem r idx = bnu cs (elem a (bidx (shape a) idx)) (elem t (bidx (shape t) idx)))"
proof -
  have n: "\<not> nd_any (\<lambda>t. fl_less t (Fin 0)) t"
    using assms(3) by (rule nd_any_False)
  show ?thesis
    using n assms(1,2)
    by (simp add: blackbody_nu_def Let_def nd_binop_gen bnu_def)
qed


lemma keep_index [simp]: "i < d \<Longrightarrow> (if d = Suc 0 then 0 else i) = i"
  by auto

lemma bs1: "broadcast_shape [nf, 1, 1] [1, 3, 1] = Inr [nf, 3, 1]"
  by (simp add: broadcast_shape_def pad_shape_def)

lemma bs2: "broadcast_shape [nf, 3, 1] [1, 1, 1, npix] = Inr [1, nf, 3, npix]"
  by (simp add: broadcast_shape_def pad_shape_def)

lemma bs3: "broadcast_shape [nf, 1, 1] [1, 1, 1, npix] = Inr [1, nf, 1, npix]"
  "broadcast_shape [nf, 1, 1] [1, nf, 1, npix] = Inr [1, nf, 1, npix]"
  by (simp_all add: broadcast_shape_def pad_shape_def)

lemma bs4: "broadcast_shape [1, 3, 1] [1, 1, 1, npix] = Inr [1, 1, 3, npix]"
  "broadcast_shape [1, 3, 1] [1, 1, 3, npix] = Inr [1, 1, 3, npix]"
  by (simp_all add: broadcast_shape_def pad_shape_def)

lemma bs5: "broadcast_shape [1, nf, 1, npix] [1, 1, 3, npix] = Inr [1, nf, 3, npix]"
  by (simp add: broadcast_shape_def pad_shape_def)

lemma bs6: "broadcast_shape [1, nf, 3, npix] [1, 3, npix] = Inr [1, nf, 3, npix]"
  by (simp add: broadcast_shape_def pad_shape_def)

lemma bidx_simps4:
  "f < nf \<Longrightarrow> bidx [nf, 1, 1] [z, f, p, x] = [f, 0, 0]"
  "bidx [1, 3, 1] [z, f, p, x] = [0, p, 0]"
  "x < npix \<Longrightarrow> bidx [1, 1, 1, npix] [z, f, p, x] = [0, 0, 0, x]"
  "f < nf \<Longrightarrow> bidx [nf, 3, 1] [z, f, p, x] = [f, p, 0]"
  "f < nf \<Longrightarrow> x < npix \<Longrightarrow> bidx [1, nf, 1, npix] [z, f, p, x] = [0, f, 0, x]"
  "x < npix \<Longrightarrow> bidx [1, 1, 3, npix] [z, f, p, x] = [0, 0, p, x]"
  "x < npix \<Longrightarrow> bidx [1, 3, npix] [z, f, p, x] = [0, p, x]"
  "f < nf \<Longrightarrow> bidx [nf, 1, 1] [f, p, 0] = [f, 0, 0]"
  "bidx [1, 3, 1] [f, p, 0] = [0, p, 0]"
  by (simp_all add: bidx_def)


lemma mbb_sed_broadcast:
  assumes s1: "shape a1 = [nf, 1, 1]" and s2: "shape a2 = [1, 3, 1]"
    and s3: "shape a3 = [1, 1, 1, npix]" and s4: "shape a4 = [1, 1, 1, npix]"
    and t: "\<And>idx. valid_index [1, 1, 1, npix] idx \<Longrightarrow> \<not> fl_less (elem a4 idx) (Fin 0)"
  shows "\<exists>r. mbb_sed cs a1 a2 a3 a4 = Inr r \<and> shape r = [1, nf, 3, npix]
     \<and> (\<forall>f p x. f < nf \<longrightarrow> p < 3 \<longrightarrow> x < npix \<longrightarrow>
           elem r [0, f, p, x] =
             mbb_value cs (elem a1 [f, 0, 0]) (elem a2 [0, p, 0]) (elem a3 [0, 0, 0, x])
               (elem a4 [0, 0, 0, x]))"
proof -
  define ratio where "ratio = \<lparr>shape = [nf, 3, 1],
     elem = (\<lambda>idx. elem a1 (bidx (shape a1) idx) / elem a2 (bidx (shape a2) idx))\<rparr>"
  have ratio: "nd_binop (/) a1 a2 = Inr ratio"
    unfolding ratio_def by (rule nd_binop_gen) (simp only: s1 s2 bs1)
  define expo where "expo = \<lparr>shape = [1, 1, 1, npix],
     elem = (\<lambda>idx. elem a3 (bidx (shape a3) idx) - elem (nd_scalar (Fin 2)) [])\<rparr>"
  have expo: "nd_binop (-) a3 (nd_scalar (Fin 2)) = Inr expo"
    unfolding expo_def by (simp add: nd_binop_right0 s3 del: One_nat_def)
  define pw where "pw = \<lparr>shape = [1, nf, 3, npix],
     elem = (\<lambda>idx. np_power (elem ratio (bidx (shape ratio) idx))
                             (elem expo (bidx (shape expo) idx)))\<rparr>"
  have pw: "nd_binop np_power ratio expo = Inr pw"
    unfolding pw_def by (rule nd_binop_gen) (simp add: ratio_def expo_def bs2 del: One_nat_def)
  have t': "\<And>idx. valid_index (shape a4) idx \<Longrightarrow> \<not> fl_less (elem a4 idx) (Fin 0)"
    using t s4 by simp
  obtain num where num: "blackbody_nu cs a1 a4 = Inr num" "shape num = [1, nf, 1, npix]"
    "\<And>idx. valid_index [1, nf, 1, npix] idx \<Longrightarrow>
       elem num idx = bnu cs (elem a1 (bidx (shape a1) idx)) (elem a4 (bidx (shape a4) idx))"
    using blackbody_nu_elem [of a1 a4 "[1, nf, 1, npix]" cs] t' by (auto simp: s1 s4 bs3 simp del: One_nat_def)
  obtain den where den: "blackbody_nu cs a2 a4 = Inr den" "shape den = [1, 1, 3, npix]"
    "\<And>idx. valid_index [1, 1, 3, npix] idx \<Longrightarrow>
       elem den idx = bnu cs (elem a2 (bidx (shape a2) idx)) (elem a4 (bidx (shape a4) idx))"
    using blackbody_nu_elem [of a2 a4 "[1, 1, 3, npix]" cs] t' by (auto simp: s2 s4 bs4 simp del: One_nat_def)
  define bb where "bb = \<lparr>shape = [1, nf, 3, npix],
     elem = (\<lambda>idx. elem num (bidx (shape num) idx) / elem den (bidx (shape den) idx))\<rparr>"
  have bb: "blackbody_ratio cs a1 a2 a4 = Inr bb"
    unfolding blackbody_ratio_def bb_def using num(1) den(1)
    by (simp add: nd_binop_gen num(2) den(2) bs5 del: One_nat_def)
  define r where "r = \<lparr>shape = [1, nf, 3, npix],
     elem = (\<lambda>idx. elem pw (bidx (shape pw) idx) * elem bb (bidx (shape bb) idx))\<rparr>"
  have r: "mbb_sed cs a1 a2 a3 a4 = Inr r"
    unfolding mbb_sed_def r_def using ratio expo pw bb
    by (simp add: nd_binop_same_shape pw_def bb_def del: One_nat_def)
  have e: "elem r [0, f, p, x] =
             mbb_value cs (elem a1 [f, 0, 0]) (elem a2 [0, p, 0]) (elem a3 [0, 0, 0, x])
               (elem a4 [0, 0, 0, x])"
    if "f < nf" "p < 3" "x < npix" for f p x
  proof -
    have v: "valid_index [1, nf, 3, npix] [0, f, p, x]" using that by simp
    have v1: "valid_index [1, nf, 1, npix] [0, f, 0, x]" using that by simp
    have v2: "valid_index [1, 1, 3, npix] [0, 0, p, x]" using that by simp
    have "elem pw [0, f, p, x] =
        np_power (elem a1 [f, 0, 0] / elem a2 [0, p, 0]) (elem a3 [0, 0, 0, x] - Fin 2)"
      using that by (simp add: pw_def ratio_def expo_def s1 s2 s3 bidx_simps4 del: One_nat_def)
    moreover have "elem bb [0, f, p, x] =
        bnu cs (elem a1 [f, 0, 0]) (elem a4 [0, 0, 0, x])
          / bnu cs (elem a2 [0, p, 0]) (elem a4 [0, 0, 0, x])"
      using that num(3) [OF v1] den(3) [OF v2]
      by (simp add: bb_def num(2) den(2) s1 s2 s4 bidx_simps4 del: One_nat_def)
    ultimately show ?thesis
      using v by (simp add: r_def pw_def bb_def mbb_value_def del: One_nat_def)
  qed
  show ?thesis using r e by (auto simp: r_def simp del: One_nat_def)
qed


lemma read_row_1d:
  assumes "read_map env path nside = Inr a" "shape a = [npix]"
  shows "\<exists>r. read_row env path nside = Inr r \<and> shape r = [1, npix]
           \<and> (\<forall>x. elem r [0, x] = elem a [x])"
  using assms by (simp add: read_row_def nd_getitem_def)

lemma setitem_template:
  assumes "shape out = [3, npix]" "p < 3" "shape v = [1, npix]"
  shows "\<exists>r. nd_setitem out [At p] v = Inr r \<and> shape r = [3, npix]
          \<and> (\<forall>q x. x < npix \<longrightarrow>
                elem r [q, x] = (if q = p then elem v [0, x] else elem out [q, x]))"
proof -
  have "strip_ones (Suc 0) [Suc 0, npix] = [npix]" by (simp add: strip_ones_def)
  moreover have "\<And>x. x < npix \<Longrightarrow> bidx [Suc 0, npix] [x] = [0, x]"
    by (simp add: bidx_def)
  ultimately show ?thesis using assms
    by (auto simp: nd_setitem_def)
qed

lemma ModifiedBlackBody_init_attrs:
  assumes "ModifiedBlackBody_init env map_I map_Q map_U unit_I unit_Q unit_U fIa fPa
             map_idx map_temp nside comm = Inr self"
    and "read_map env map_idx nside = Inr a_idx" "shape a_idx = [npix]"
    and "read_map env map_temp nside = Inr a_temp" "shape a_temp = [npix]"
    and "read_map env map_I nside = Inr a_I" "shape a_I = [npix]"
    and "read_map env map_Q nside = Inr a_Q" "shape a_Q = [npix]"
    and "read_map env map_U nside = Inr a_U" "shape a_U = [npix]"
    and "py_float fIa = Inr fI" "py_float fPa = Inr fP"
    and "nside2npix env nside = Inr npix"
  shows "\<exists>r_idx r_temp iqu.
      self ''_ModifiedBlackBody__mbb_index'' = Some (PArray r_idx)
    \<and> self ''_ModifiedBlackBody__mbb_temperature'' = Some (PArray r_temp)
    \<and> self ''_ModifiedBlackBody__iqu_ref_freqs'' = Some (PArray (nd_of_list [fI, fP, fP]))
    \<and> self ''_ModifiedBlackBody__iqu_ref'' = Some (PArray iqu)
    \<and> shape r_idx = [1, npix] \<and> (\<forall>x. elem r_idx [0, x] = elem a_idx [x])
    \<and> shape r_temp = [1, npix] \<and> (\<forall>x. elem r_temp [0, x] = elem a_temp [x])
    \<and> shape iqu = [3, npix]
    \<and> (\<forall>p x. p < 3 \<longrightarrow> x < npix \<longrightarrow> elem iqu [p, x] = elem ([a_I, a_Q, a_U] ! p) [x])"
proof -
  obtain r_idx where r_idx: "read_row env map_idx nside = Inr r_idx" "shape r_idx = [1, npix]"
    "\<And>x. elem r_idx [0, x] = elem a_idx [x]"
    using read_row_1d [OF assms(2,3)] by auto
  obtain r_temp where r_temp: "read_row env map_temp nside = Inr r_temp"
    "shape r_temp = [1, npix]" "\<And>x. elem r_temp [0, x] = elem a_temp [x]"
    using read_row_1d [OF assms(4,5)] by auto
  obtain r_I where r_I: "read_row env map_I nside = Inr r_I" "shape r_I = [1, npix]"
    "\<And>x. elem r_I [0, x] = elem a_I [x]"
    using read_row_1d [OF assms(6,7)] by auto
  obtain r_Q where r_Q: "read_row env map_Q nside = Inr r_Q" "shape r_Q = [1, npix]"
    "\<And>x. elem r_Q [0, x] = elem a_Q [x]"
    using read_row_1d [OF assms(8,9)] by auto
  obtain r_U where r_U: "read_row env map_U nside = Inr r_U" "shape r_U = [1, npix]"
    "\<And>x. elem r_U [0, x] = elem a_U [x]"
    using read_row_1d [OF assms(10,11)] by auto
  let ?e = "\<lparr>shape = [3, npix], elem = empty_contents env\<rparr>"
  obtain i1 where i1: "nd_setitem ?e [At 0] r_I = Inr i1" "shape i1 = [3, npix]"
    "\<And>q x. x < npix \<Longrightarrow> elem i1 [q, x] = (if q = 0 then elem r_I [0, x] else elem ?e [q, x])"
    using setitem_template [of ?e npix 0 r_I] r_I(2) by auto
  obtain i2 where i2: "nd_setitem i1 [At 1] r_Q = Inr i2" "shape i2 = [3, npix]"
    "\<And>q x. x < npix \<Longrightarrow> elem i2 [q, x] = (if q = 1 then elem r_Q [0, x] else elem i1 [q, x])"
    using setitem_template [of i1 npix 1 r_Q] i1(2) r_Q(2) by auto
  obtain i3 where i3: "nd_setitem i2 [At 2] r_U = Inr i3" "shape i3 = [3, npix]"
    "\<And>q x. x < npix \<Longrightarrow> elem i3 [q, x] = (if q = 2 then elem r_U [0, x] else elem i2 [q, x])"
    using setitem_template [of i2 npix 2 r_U] i2(2) r_U(2) by auto
  obtain self0 where self0: "model_init env comm = Inr self0"
    using assms(1) by (cases "model_init env comm") (simp_all add: ModifiedBlackBody_init_def)
  have self: "self = self0
       (''_ModifiedBlackBody__mbb_index'' \<mapsto> PArray r_idx,
        ''_ModifiedBlackBody__mbb_temperature'' \<mapsto> PArray r_temp,
        ''_ModifiedBlackBody__iqu_ref_freqs'' \<mapsto> PArray (nd_of_list [fI, fP, fP]),
        ''_ModifiedBlackBody__iqu_ref'' \<mapsto> PArray i3)"
    using assms(1) self0 r_idx(1) r_temp(1) assms(12,13,14) r_I(1) i1(1) r_Q(1) i2(1) r_U(1) i3(1)
    by (simp add: ModifiedBlackBody_init_def)
  have iq: "elem i3 [p, x] = elem ([a_I, a_Q, a_U] ! p) [x]" if "p < 3" "x < npix" for p x
  proof -
    from that(1) consider "p = 0" | "p = 1" | "p = 2" by linarith
    then show ?thesis
      using i3(3) [OF that(2), of p] i2(3) [OF that(2), of p] i1(3) [OF that(2), of p]
        r_I(3) r_Q(3) r_U(3)
      by cases simp_all
  qed
  show ?thesis
    unfolding self using r_idx(2,3) r_temp(2,3) i3(2) iq by simp
qed


lemma valid4:
  "valid_index [1, 1, 1, npix] idx \<Longrightarrow> \<exists>x < npix. idx = [0, 0, 0, x]"
  by (auto simp: valid_index_def list_all2_Cons2)

lemma ModifiedBlackBody_get_emission_general:
  assumes "ModifiedBlackBody_init env map_I map_Q map_U unit_I unit_Q unit_U fIa fPa
             map_idx map_temp nside comm = Inr self"
    and "read_map env map_idx nside = Inr a_idx" "shape a_idx = [npix]"
    and "read_map env map_temp nside = Inr a_temp" "shape a_temp = [npix]"
    and "read_map env map_I nside = Inr a_I" "shape a_I = [npix]"
    and "read_map env map_Q nside = Inr a_Q" "shape a_Q = [npix]"
    and "read_map env map_U nside = Inr a_U" "shape a_U = [npix]"
    and "py_float fIa = Inr fI" "py_float fPa = Inr fP"
    and "nside2npix env nside = Inr npix"
    and "\<And>x. x < npix \<Longrightarrow> \<not> fl_less (elem a_temp [x]) (Fin 0)"
    and "check_freq_input freqs = Inr fs" "shape fs = [nfreq]"
  shows "result_shape (ModifiedBlackBody_get_emission env self freqs) = Inr [1, nfreq, 3, npix]
     \<and> (\<forall>f p x. f < nfreq \<longrightarrow> p < 3 \<longrightarrow> x < npix \<longrightarrow>
           entry (ModifiedBlackBody_get_emission env self freqs) [0, f, p, x] =
             Inr (mbb_value (sed_constants env) (elem fs [f]) ([fI, fP, fP] ! p)
                    (elem a_idx [x]) (elem a_temp [x])
                  * elem ([a_I, a_Q, a_U] ! p) [x]))"
proof -
  from ModifiedBlackBody_init_attrs [OF assms(1-14)]
  obtain r_idx r_temp iqu where at:
    "self ''_ModifiedBlackBody__mbb_index'' = Some (PArray r_idx)"
    "self ''_ModifiedBlackBody__mbb_temperature'' = Some (PArray r_temp)"
    "self ''_ModifiedBlackBody__iqu_ref_freqs'' = Some (PArray (nd_of_list [fI, fP, fP]))"
    "self ''_ModifiedBlackBody__iqu_ref'' = Some (PArray iqu)"
    and sh: "shape r_idx = [1, npix]" "shape r_temp = [1, npix]" "shape iqu = [3, npix]"
    and el: "\<And>x. elem r_idx [0, x] = elem a_idx [x]"
      "\<And>x. elem r_temp [0, x] = elem a_temp [x]"
      "\<And>p x. p < 3 \<Longrightarrow> x < npix \<Longrightarrow> elem iqu [p, x] = elem ([a_I, a_Q, a_U] ! p) [x]"
    by blast
  define a1 where "a1 = \<lparr>shape = [nfreq, 1, 1],
       elem = (\<lambda>idx. elem fs (view_index [Whole, NewAxis, NewAxis] (shape fs) idx))\<rparr>"
  have a1: "nd_getitem fs [Whole, NewAxis, NewAxis] = Inr a1"
    by (simp add: nd_getitem_def assms(17) a1_def)
  define a2 where "a2 = \<lparr>shape = [1, 3, 1],
       elem = (\<lambda>idx. elem (nd_of_list [fI, fP, fP])
                 (view_index [NewAxis, Whole, NewAxis] (shape (nd_of_list [fI, fP, fP])) idx))\<rparr>"
  have a2: "subscript (PArray (nd_of_list [fI, fP, fP])) [NewAxis, Whole, NewAxis] = Inr a2"
    by (simp add: subscript_def nd_getitem_def nd_of_list_def a2_def)
  define a3 where "a3 = \<lparr>shape = [1, 1, 1, npix],
       elem = (\<lambda>idx. elem r_idx (view_index [NewAxis, NewAxis, Whole] (shape r_idx) idx))\<rparr>"
  have a3: "subscript (PArray r_idx) [NewAxis, NewAxis, Whole] = Inr a3"
    by (simp add: subscript_def nd_getitem_def sh a3_def)
  define a4 where "a4 = \<lparr>shape = [1, 1, 1, npix],
       elem = (\<lambda>idx. elem r_temp (view_index [NewAxis, NewAxis, Whole] (shape r_temp) idx))\<rparr>"
  have a4: "subscript (PArray r_temp) [NewAxis, NewAxis, Whole] = Inr a4"
    by (simp add: subscript_def nd_getitem_def sh a4_def)
  define tm where "tm = \<lparr>shape = [1, 3, npix],
       elem = (\<lambda>idx. elem iqu (view_index [NewAxis, Ell] (shape iqu) idx))\<rparr>"
  have tm: "subscript (PArray iqu) [NewAxis, Ell] = Inr tm"
    by (simp add: subscript_def nd_getitem_def sh tm_def)
  have e1: "\<And>f. elem a1 [f, 0, 0] = elem fs [f]" by (simp add: a1_def assms(17))
  have e2: "\<And>p. p < 3 \<Longrightarrow> elem a2 [0, p, 0] = [fI, fP, fP] ! p"
    by (simp add: a2_def nd_of_list_def)
  have e3: "\<And>x. elem a3 [0, 0, 0, x] = elem a_idx [x]" by (simp add: a3_def sh el)
  have e4: "\<And>x. elem a4 [0, 0, 0, x] = elem a_temp [x]" by (simp add: a4_def sh el)
  have e5: "\<And>p x. p < 3 \<Longrightarrow> x < npix \<Longrightarrow> elem tm [0, p, x] = elem ([a_I, a_Q, a_U] ! p) [x]"
    by (simp add: tm_def sh el)
  have t: "\<not> fl_less (elem a4 idx) (Fin 0)" if "valid_index [1, 1, 1, npix] idx" for idx
  proof -
    from valid4 [OF that] obtain x where "x < npix" "idx = [0, 0, 0, x]" by blast
    then show ?thesis using e4 assms(15) by simp
  qed
  have s1: "shape a1 = [nfreq, 1, 1]" and s2: "shape a2 = [1, 3, 1]"
    and s3: "shape a3 = [1, 1, 1, npix]" and s4: "shape a4 = [1, 1, 1, npix]"
    by (simp_all add: a1_def a2_def a3_def a4_def)
  from mbb_sed_broadcast [OF s1 s2 s3 s4 t, of "sed_constants env"]
  obtain sc where sc: "mbb_sed (sed_constants env) a1 a2 a3 a4 = Inr sc"
    "shape sc = [1, nfreq, 3, npix]"
    "\<And>f p x. f < nfreq \<Longrightarrow> p < 3 \<Longrightarrow> x < npix \<Longrightarrow>
       elem sc [0, f, p, x] =
         mbb_value (sed_constants env) (elem a1 [f, 0, 0]) (elem a2 [0, p, 0])
           (elem a3 [0, 0, 0, x]) (elem a4 [0, 0, 0, x])"
    by blast
  define r where "r = \<lparr>shape = [1, nfreq, 3, npix],
     elem = (\<lambda>idx. elem sc (bidx (shape sc) idx) * elem tm (bidx (shape tm) idx))\<rparr>"
  have "nd_binop (*) sc tm = Inr r"
    unfolding r_def by (rule nd_binop_gen) (simp only: sc(2) tm_def ndarray.simps bs6)
  then have g: "ModifiedBlackBody_get_emission env self freqs = Inr r"
    using assms(16) a1 a2 a3 a4 tm sc(1) at
    by (simp add: ModifiedBlackBody_get_emission_def getattr_def)
  have e: "elem r [0, f, p, x] =
      mbb_value (sed_constants env) (elem fs [f]) ([fI, fP, fP] ! p)
                    (elem a_idx [x]) (elem a_temp [x])
                  * elem ([a_I, a_Q, a_U] ! p) [x]"
    if "f < nfreq" "p < 3" "x < npix" for f p x
  proof -
    have v: "valid_index [1, nfreq, 3, npix] [0, f, p, x]" using that by simp
    have b: "bidx [1, 3, npix] [0, f, p, x] = [0, p, x]"
      using that by (rule_tac bidx_simps4(7))
    show ?thesis
      using that v sc(3) [OF that] e1 e2 e3 e4 e5 [OF that(2,3)]
      by (simp add: r_def sc(2) tm_def b del: One_nat_def)
  qed
  show ?thesis using g e by (simp add: r_def)
qed


lemma mbb_value_anchor:
  assumes "valid_constants cs" "0 < f" "0 < T" "expm1_in_range cs f T"
  shows "mbb_value cs (Fin f) (Fin f) idx (Fin T) = Fin 1"
proof -
  have "planck cs f T \<noteq> 0" using planck_pos [OF assms(1-3)] by simp
  then show ?thesis using assms by (simp add: mbb_value_def bnu_fin)
qed

lemma example_reads:
  "read_map example_env (PPath ''dust_index'') (PInt 1) = Inr (example_map (3 / 2))"
  "read_map example_env (PPath ''dust_temperature'') (PInt 1) = Inr (example_map 20)"
  "read_map example_env (PPath ''dust_I'') (PInt 1) = Inr (example_map 10)"
  "read_map example_env (PPath ''dust_Q'') (PInt 1) = Inr (example_map 2)"
  "read_map example_env (PPath ''dust_U'') (PInt 1) = Inr (example_map 3)"
  "nside2npix example_env (PInt 1) = Inr 12"
  "model_init example_env PNone = Inr Map.empty"
  by (simp_all add: example_env_def)

lemma example_map_shape: "shape (example_map v) = [12]"
  by (simp add: example_map_def)

lemma example_mbb_built: "\<exists>self. example_mbb = Inr self"
proof -
  obtain rI where rI: "read_row example_env (PPath ''dust_I'') (PInt 1) = Inr rI" "shape rI = [1, 12]"
    using read_row_1d [OF example_reads(3) example_map_shape] by blast
  obtain rQ where rQ: "read_row example_env (PPath ''dust_Q'') (PInt 1) = Inr rQ" "shape rQ = [1, 12]"
    using read_row_1d [OF example_reads(4) example_map_shape] by blast
  obtain rU where rU: "read_row example_env (PPath ''dust_U'') (PInt 1) = Inr rU" "shape rU = [1, 12]"
    using read_row_1d [OF example_reads(5) example_map_shape] by blast
  obtain ri where ri: "read_row example_env (PPath ''dust_index'') (PInt 1) = Inr ri"
    using read_row_1d [OF example_reads(1) example_map_shape] by blast
  obtain rt where rt: "read_row example_env (PPath ''dust_temperature'') (PInt 1) = Inr rt"
    using read_row_1d [OF example_reads(2) example_map_shape] by blast
  let ?e = "\<lparr>shape = [3, 12], elem = empty_contents example_env\<rparr>"
  have se: "shape ?e = [3, 12]" by simp
  obtain i1 where i1: "nd_setitem ?e [At 0] rI = Inr i1" "shape i1 = [3, 12]"
    using setitem_template [OF se _ rI(2), of 0] by auto
  obtain i2 where i2: "nd_setitem i1 [At 1] rQ = Inr i2" "shape i2 = [3, 12]"
    using setitem_template [OF i1(2) _ rQ(2), of 1] by auto
  obtain i3 where i3: "nd_setitem i2 [At 2] rU = Inr i3" "shape i3 = [3, 12]"
    using setitem_template [OF i2(2) _ rU(2), of 2] by auto
  show ?thesis
    unfolding example_mbb_def ModifiedBlackBody_init_def
    using example_reads(6,7) ri rt rI(1) i1(1) rQ(1) i2(1) rU(1) i3(1)
    by (simp add: py_float_def)
qed

text \<open>
  C1. \<open>ModifiedBlackBody.get_emission\<close> on the example model and the two frequencies
  353 and 100 GHz returns an array of shape \<open>(1, 2, 3, 12)\<close>, that is
  \<open>(1, nfreq, 3, npix)\<close> and not the \<open>(nfreq, 3, npix)\<close> of the docstring: the spectral maps
  are stored as \<^verbatim>\<open>read_map(...)[None, :]\<close>, of shape \<open>(1, npix)\<close>, and indexed again with
  \<^verbatim>\<open>[None, None, :]\<close>. The entry at \<open>(0, f, p, x)\<close> is the scaling times the template (lemma
  \<open>ModifiedBlackBody_get_emission_general\<close>): at the reference frequency the Q entry is
  the Q template, 2.
\<close>

theorem ModifiedBlackBody_get_emission_shape_example:
  "result_shape (ModifiedBlackBody_get_emission example_env (projr example_mbb)
       (nd_of_list [Fin 353, Fin 100])) = Inr [1, 2, 3, 12]
   \<and> result_shape (ModifiedBlackBody_get_emission example_env (projr example_mbb)
       (nd_of_list [Fin 353, Fin 100])) \<noteq> Inr [2, 3, 12]
   \<and> entry (ModifiedBlackBody_get_emission example_env (projr example_mbb)
       (nd_of_list [Fin 353, Fin 100])) [0, 0, 1, 5] = Inr (Fin 2)"
proof -
  obtain self where self: "example_mbb = Inr self" using example_mbb_built by blast
  have init: "ModifiedBlackBody_init example_env (PPath ''dust_I'') (PPath ''dust_Q'')
       (PPath ''dust_U'') PNone PNone PNone (PFloat (Fin 353)) (PFloat (Fin 353))
       (PPath ''dust_index'') (PPath ''dust_temperature'') (PInt 1) PNone = Inr self"
    using self by (simp add: example_mbb_def)
  note rd = example_reads(1-5)
  note sh = example_map_shape
  have fl: "py_float (PFloat (Fin 353)) = Inr (Fin 353)" by (simp add: py_float_def)
  note n = example_reads(6)
  have t: "\<And>x. x < 12 \<Longrightarrow> \<not> fl_less (elem (example_map 20) [x]) (Fin 0)"
    by (simp add: example_map_def)
  have c: "check_freq_input (nd_of_list [Fin 353, Fin 100]) = Inr (nd_of_list [Fin 353, Fin 100])"
    by (simp add: check_freq_input_def nd_of_list_def nd_to_list_def upt_small)
  have f: "shape (nd_of_list [Fin 353, Fin 100]) = [2]" by (simp add: nd_of_list_def)
  note G = ModifiedBlackBody_get_emission_general [OF init rd(1) sh rd(2) sh rd(3) sh rd(4) sh
      rd(5) sh fl fl n t c f]
  have s: "result_shape (ModifiedBlackBody_get_emission example_env self
       (nd_of_list [Fin 353, Fin 100])) = Inr [1, 2, 3, 12]"
    using G by blast
  have "entry (ModifiedBlackBody_get_emission example_env self
       (nd_of_list [Fin 353, Fin 100])) [0, 0, 1, 5] =
      Inr (mbb_value (sed_constants example_env) (elem (nd_of_list [Fin 353, Fin 100]) [0])
             ([Fin 353, Fin 353, Fin 353] ! 1)
             (elem (example_map (3 / 2)) [5]) (elem (example_map 20) [5])
           * elem ([example_map 10, example_map 2, example_map 3] ! 1) [5])"
    using G by simp
  moreover have "mbb_value (sed_constants example_env) (Fin 353) (Fin 353) (Fin (3 / 2)) (Fin 20)
      = Fin 1"
    by (rule mbb_value_anchor) (simp_all add: example_env_def si_valid si_range_353_20)
  ultimately have e: "entry (ModifiedBlackBody_get_emission example_env self
       (nd_of_list [Fin 353, Fin 100])) [0, 0, 1, 5] = Inr (Fin 2)"
    by (simp add: nd_of_list_def example_map_def)
  have p: "projr example_mbb = self" unfolding self by simp
  have "Inr [1, 2, 3, 12] \<noteq> (Inr [2, 3, 12] :: pyerr + nat list)" by simp
  with s e show ?thesis unfolding p by simp
qed


lemma and_then_Inr: "and_then r f = Inr y \<Longrightarrow> \<exists>x. r = Inr x \<and> f x = Inr y"
  by (cases r) simp_all

lemma ModifiedBlackBody_init_dict:
  assumes "ModifiedBlackBody_init env m1 m2 m3 u1 u2 u3 fa fb mi mt ns comm = Inr self"
  shows "\<exists>self0 v1 v2 v3 v4. model_init env comm = Inr self0
     \<and> self = self0
       (''_ModifiedBlackBody__mbb_index'' \<mapsto> v1,
        ''_ModifiedBlackBody__mbb_temperature'' \<mapsto> v2,
        ''_ModifiedBlackBody__iqu_ref_freqs'' \<mapsto> v3,
        ''_ModifiedBlackBody__iqu_ref'' \<mapsto> v4)"
  using assms unfolding ModifiedBlackBody_init_def
  by (fastforce dest!: and_then_Inr)

lemma missing_after_init:
  assumes "base_without_freq_ref env"
    and "ModifiedBlackBody_init env m1 m2 m3 u1 u2 u3 fa fb mi mt ns comm = Inr self"
  shows "self ''freq_ref_I'' = None" "self ''freq_ref_P'' = None"
proof -
  from ModifiedBlackBody_init_dict [OF assms(2)]
  obtain self0 v1 v2 v3 v4 where s0: "model_init env comm = Inr self0"
    and self: "self = self0
       (''_ModifiedBlackBody__mbb_index'' \<mapsto> v1,
        ''_ModifiedBlackBody__mbb_temperature'' \<mapsto> v2,
        ''_ModifiedBlackBody__iqu_ref_freqs'' \<mapsto> v3,
        ''_ModifiedBlackBody__iqu_ref'' \<mapsto> v4)"
    by blast
  have b: "self0 ''freq_ref_I'' = None" "self0 ''freq_ref_P'' = None"
    using assms(1) s0 unfolding base_without_freq_ref_def by blast+
  show "self ''freq_ref_I'' = None" "self ''freq_ref_P'' = None"
    unfolding self using b by simp_all
qed

lemma get_emission_missing:
  assumes "self ''freq_ref_I'' = None" and "check_freq_input freqs = Inr fs"
  shows "DecorrelatedModifiedBlackBody_get_emission fuel eigh randn env self freqs rng
           = (Some (Inl (AttributeError ''freq_ref_I'')), rng)"
  using assms
  by (simp add: DecorrelatedModifiedBlackBody_get_emission_def decorrelation_pairs_def
      decorrelation_of_def getattr_def)

lemma get_emission_rejected:
  assumes "check_freq_input freqs = Inl e"
  shows "DecorrelatedModifiedBlackBody_get_emission fuel eigh randn env self freqs rng
           = (Some (Inl e), rng)"
  using assms
  by (simp add: DecorrelatedModifiedBlackBody_get_emission_def decorrelation_pairs_def)

text \<open>
  C3 (amended). The property functions nested in \<open>ModifiedBlackBody.__init__\<close> never attach
  to the instance: if the base class provides no \<open>freq_ref_I\<close> and \<open>freq_ref_P\<close>, an
  instance that the constructor returns has neither attribute, and neither has the
  instance with \<open>correlation_length\<close> set that \<open>DecorrelatedModifiedBlackBody.__init__\<close>
  makes of it. Every call of \<open>DecorrelatedModifiedBlackBody.get_emission\<close> on it whose
  frequency input \<open>check_freq_input\<close> accepts fails with the AttributeError for
  \<open>freq_ref_I\<close>; a call whose frequency input is rejected fails with the error of
  \<open>check_freq_input\<close>. No call computes an emission.
\<close>

theorem freq_ref_attributes_missing:
  assumes "base_without_freq_ref env"
    and "ModifiedBlackBody_init env m1 m2 m3 u1 u2 u3 fa fb mi mt ns comm = Inr self"
  shows "self ''freq_ref_I'' = None \<and> self ''freq_ref_P'' = None
     \<and> (\<forall>cl. (self(''correlation_length'' \<mapsto> cl)) ''freq_ref_I'' = None
            \<and> (self(''correlation_length'' \<mapsto> cl)) ''freq_ref_P'' = None
            \<and> (\<forall>freqs fs. check_freq_input freqs = Inr fs \<longrightarrow>
                  fst (DecorrelatedModifiedBlackBody_get_emission fuel eigh randn env
                         (self(''correlation_length'' \<mapsto> cl)) freqs rng)
                    = Some (Inl (AttributeError ''freq_ref_I'')))
            \<and> (\<forall>freqs e. check_freq_input freqs = Inl e \<longrightarrow>
                  fst (DecorrelatedModifiedBlackBody_get_emission fuel eigh randn env
                         (self(''correlation_length'' \<mapsto> cl)) freqs rng)
                    = Some (Inl e)))"
proof -
  note n = missing_after_init [OF assms]
  have c: "(self(''correlation_length'' \<mapsto> cl)) ''freq_ref_I'' = None"
    "(self(''correlation_length'' \<mapsto> cl)) ''freq_ref_P'' = None" for cl
    using n by simp_all
  have m: "fst (DecorrelatedModifiedBlackBody_get_emission fuel eigh randn env
                         (self(''correlation_length'' \<mapsto> cl)) freqs rng)
                    = Some (Inl (AttributeError ''freq_ref_I''))"
    if "check_freq_input freqs = Inr fs" for cl freqs fs
    by (simp add: get_emission_missing
        [where self = "self(''correlation_length'' \<mapsto> cl)", OF c(1) that])
  have r: "fst (DecorrelatedModifiedBlackBody_get_emission fuel eigh randn env
                         (self(''correlation_length'' \<mapsto> cl)) freqs rng)
                    = Some (Inl e)"
    if "check_freq_input freqs = Inl e" for cl freqs e
    by (simp add: get_emission_rejected [OF that])
  show ?thesis
    using n c m r by blast
qed

lemma example_instance:
  "example_mbb = Inr (projr example_mbb)" "(projr example_mbb) ''freq_ref_I'' = None"
  "(projr example_mbb) ''freq_ref_P'' = None"
proof -
  obtain self where self: "example_mbb = Inr self" using example_mbb_built by blast
  show e: "example_mbb = Inr (projr example_mbb)" by (simp add: self)
  have b: "base_without_freq_ref example_env"
    by (auto simp: example_env_def base_without_freq_ref_def)
  show "(projr example_mbb) ''freq_ref_I'' = None" "(projr example_mbb) ''freq_ref_P'' = None"
    using missing_after_init [OF b e [unfolded example_mbb_def]]
    by (simp_all add: example_mbb_def)
qed

lemma check_100: "check_freq_input (nd_of_list [Fin 100]) = Inr (nd_of_list [Fin 100])"
  by (simp add: check_freq_input_def nd_of_list_def nd_to_list_def upt_small)

lemma check_empty: "check_freq_input (nd_of_list []) = Inl InvalidFrequencyInput"
  by (simp add: check_freq_input_def nd_of_list_def)

theorem freq_ref_attributes_missing_witness:
  "base_without_freq_ref example_env
   \<and> example_mbb = Inr (projr example_mbb)
   \<and> check_freq_input (nd_of_list [Fin 100]) = Inr (nd_of_list [Fin 100])
   \<and> (projr example_mbb) ''freq_ref_I'' = None
   \<and> fst (DecorrelatedModifiedBlackBody_get_emission 2 eigh_example counting_randn example_env
            ((projr example_mbb)(''correlation_length'' \<mapsto> PFloat (Fin (1 / 2))))
            (nd_of_list [Fin 100]) 0)
       = Some (Inl (AttributeError ''freq_ref_I''))"
proof -
  have b: "base_without_freq_ref example_env"
    by (auto simp: example_env_def base_without_freq_ref_def)
  note T = freq_ref_attributes_missing [OF b example_instance(1) [unfolded example_mbb_def],
      folded example_mbb_def, of 2 eigh_example counting_randn 0]
  have "fst (DecorrelatedModifiedBlackBody_get_emission 2 eigh_example counting_randn example_env
            ((projr example_mbb)(''correlation_length'' \<mapsto> PFloat (Fin (1 / 2))))
            (nd_of_list [Fin 100]) 0)
       = Some (Inl (AttributeError ''freq_ref_I''))"
    using T check_100 by blast
  moreover have "(projr example_mbb) ''freq_ref_I'' = None" using T by blast
  ultimately show ?thesis using b example_instance(1) check_100 by blast
qed

text \<open>
  C3 (as stated in the specification) names the attribute error for every frequency
  input. \<open>check_freq_input\<close> runs before the first attribute is read: on the empty
  frequency array the call fails with InvalidFrequencyInput.
\<close>

theorem freq_ref_rejected_input_counterexample:
  "fst (DecorrelatedModifiedBlackBody_get_emission 2 eigh_example counting_randn example_env
          ((projr example_mbb)(''correlation_length'' \<mapsto> PFloat (Fin (1 / 2))))
          (nd_of_list []) 0)
     = Some (Inl InvalidFrequencyInput)"
  by (simp add: get_emission_rejected [OF check_empty])


lemma DecorrelatedModifiedBlackBody_init_dict:
  assumes "DecorrelatedModifiedBlackBody_init env m1 m2 m3 fa fb mi mt ns comm cl = Inr self"
  shows "\<exists>self0. ModifiedBlackBody_init env m1 m2 m3 fa fb mi mt ns comm PNone PNone PNone
                    = Inr self0
           \<and> self = self0(''correlation_length'' \<mapsto> cl)"
  using assms unfolding DecorrelatedModifiedBlackBody_init_def
  by (fastforce dest!: and_then_Inr)

end
